theory Spec2Isabelle
  imports Complex_Main "HOL-Library.Sublist"
begin

section \<open>The TestRail client of \<open>testrail.py\<close>\<close>

text \<open>
  The class \<open>Testrail\<close> is a client of a JSON REST service. Its methods are modelled
  as functions on a record of the instance attributes that return either the raised
  exception (\<open>Inl\<close>) or the returned value (\<open>Inr\<close>), together with the updated
  instance. The service is a parameter: a record of its answers, one field per endpoint
  the client reads. Every request the client issues is appended to the field \<open>sent\<close>, so
  that "no request is issued" is a statement about that list.
\<close>

subsection \<open>Values\<close>

text \<open>Request bodies and the answers to POST requests are JSON documents.\<close>

datatype json =
    JNull
  | JBool bool
  | JInt int
  | JStr string
  | JList "json list"
  | JObj "(string \<times> json) list"

text \<open>
  The exceptions of the module: \<open>APIError\<close> is the class at the end of the file,
  \<open>EnvironmentError\<close> is raised by the id properties, the others are raised by the
  interpreter and its library: \<open>TypeError\<close>, \<open>KeyError\<close> and \<open>IndexError\<close> by subscripting
  \<open>None\<close>, a missing key and \<open>[0]\<close> on an empty list; \<open>ValueError\<close>, \<open>OverflowError\<close> and
  \<open>OSError\<close> by \<open>math.ceil\<close> and \<open>time.gmtime\<close> on a duration they cannot convert.
\<close>

datatype error =
    APIError string
  | EnvironmentError string
  | TypeError
  | KeyError
  | IndexError
  | ValueError
  | OverflowError
  | OSError

text \<open>
  An answer of the service is either an HTTP error (status code and, when the body
  carries one, its \<open>error\<close> field) or the decoded body.
\<close>

datatype http_error = HTTPError int "string option"

type_synonym 'a reply = "http_error + 'a"

text \<open>
  The decoded bodies, with the keys the client reads. Projects, suites and plans (as
  listed by \<open>get_projects\<close>, \<open>get_suites\<close>, \<open>get_plans\<close>) are read through \<open>["name"]\<close> and
  \<open>["id"]\<close>. The tests of a run are read through \<open>.get('case_id', None)\<close> and
  \<open>.get('id', None)\<close> in one place and through \<open>['case_id']\<close> in others, so both keys may
  be absent (\<open>None\<close>).
\<close>

record entity =
  ent_name :: string
  ent_id :: int

record run =
  run_name :: string
  run_ident :: int
  run_entry_id :: string

record entry =
  entry_name :: string
  entry_runs :: "run list"

record plan_detail =
  plan_entries :: "entry list"

record test =
  test_id :: "int option"
  test_case_id :: "int option"

text \<open>A run id as the callers pass it: a number, or \<open>None\<close> (what \<open>get_run_id\<close> returns
  when it finds nothing).\<close>

type_synonym run_id = "int option"

text \<open>
  The service, as one operation of the client sees it: the answer to each GET the client
  issues (by the id in the URI), the answer to a POST (by URI and body), and the current
  US/Pacific time in the format \<open>%Y-%m-%d %H:%M\<close>, which \<open>format_testrun\<close> reads from the
  clock. The answers to the GETs are fixed for the duration of one operation; successive
  operations may be given different services. The record also holds what the host's C
  library decides: \<open>gmtime_raises n\<close> is the exception that
  \<open>time.strftime('%Hh %Mm %Ss', time.gmtime(n))\<close> raises for the integer \<open>n\<close>, and \<open>None\<close>
  when the call returns; the range of \<open>n\<close> that converts differs between hosts.
\<close>

record server =
  get_projects_reply :: "entity list reply"
  get_suites_reply :: "int \<Rightarrow> entity list reply"
  get_plans_reply :: "int \<Rightarrow> entity list reply"
  get_plan_reply :: "int \<Rightarrow> plan_detail reply"
  get_tests_reply :: "run_id \<Rightarrow> test list reply"
  post_reply :: "string \<Rightarrow> json \<Rightarrow> json reply"
  now_pacific :: string
  gmtime_raises :: "int \<Rightarrow> error option"

record request =
  req_method :: string
  req_url :: string
  req_data :: "json option"

text \<open>
  The instance attributes. The name-mangled attributes \<open>__x\<close> are the fields \<open>priv_x\<close>.
  \<open>sent\<close> is not an attribute: it lists the requests issued so far, oldest first.
\<close>

record client =
  user :: string
  password :: string
  priv_run_id :: run_id
  cases_in_run :: "run_id \<rightharpoonup> test list"
  priv_url :: string
  priv_project :: "string option"
  priv_project_id :: "int option"
  priv_suite :: "string option"
  priv_suite_id :: "int option"
  sent :: "request list"

text \<open>\<open>self.result_map\<close> is assigned once, in \<open>__init__\<close>, and never changed.\<close>

definition result_map :: "string \<rightharpoonup> int" where
  "result_map = [''passed'' \<mapsto> 1, ''failed'' \<mapsto> 5]"

subsection \<open>Methods that may raise\<close>

type_synonym 'a action = "client \<Rightarrow> (error + 'a) \<times> client"

definition returns :: "'a \<Rightarrow> 'a action" where
  "returns x = (\<lambda>c. (Inr x, c))"

definition raise :: "error \<Rightarrow> 'a action" where
  "raise e = (\<lambda>c. (Inl e, c))"

definition and_then :: "'a action \<Rightarrow> ('a \<Rightarrow> 'b action) \<Rightarrow> 'b action" where
  "and_then m f = (\<lambda>c. case m c of (Inl e, c') \<Rightarrow> (Inl e, c') | (Inr x, c') \<Rightarrow> f x c')"

definition lift :: "error + 'a \<Rightarrow> 'a action" where
  "lift r = (\<lambda>c. (r, c))"

subsection \<open>Strings\<close>

text \<open>\<open>str(n)\<close> for an integer, and for a run id that may be \<open>None\<close>.\<close>

function str_nat :: "nat \<Rightarrow> string" where
  "str_nat n =
     (if n < 10 then [''0123456789'' ! n]
      else str_nat (n div 10) @ [''0123456789'' ! (n mod 10)])"
  by pat_completeness auto
termination
  by (relation "measure id") auto

declare str_nat.simps [simp del]

definition str_int :: "int \<Rightarrow> string" where
  "str_int i = (if i < 0 then CHR ''-'' # str_nat (nat (- i)) else str_nat (nat i))"

definition str_run_id :: "run_id \<Rightarrow> string" where
  "str_run_id r = (case r of None \<Rightarrow> ''None'' | Some i \<Rightarrow> str_int i)"

text \<open>\<open>sub in s\<close> on two strings: \<open>sub\<close> occurs in \<open>s\<close> as a contiguous substring.\<close>

fun str_contains :: "string \<Rightarrow> string \<Rightarrow> bool" where
  "str_contains sub [] = (sub = [])"
| "str_contains sub (c # cs) = (prefix sub (c # cs) \<or> str_contains sub cs)"

subsection \<open>Transport\<close>

text \<open>
  \<open>__send_request\<close>: the request goes to \<open>self.__url + uri\<close>, with a body only for a
  POST. An HTTP error becomes \<open>APIError\<close> with the status code and the body's \<open>error\<close>
  field in double quotes, or a fixed text without one. The answer is the service's, passed
  in by the caller of \<open>send_get\<close> or \<open>send_post\<close>.
\<close>

definition api_error_message :: "http_error \<Rightarrow> string" where
  "api_error_message h =
     (case h of HTTPError code err \<Rightarrow>
        ''TestRail API returned HTTP '' @ str_int code @ '' ('' @
        (case err of
           Some m \<Rightarrow> [CHR 0x22] @ m @ [CHR 0x22]
         | None \<Rightarrow> ''No additional error message received'') @ '')'')"

definition send_request :: "string \<Rightarrow> string \<Rightarrow> json option \<Rightarrow> 'a reply \<Rightarrow> 'a action" where
  "send_request method uri data reply c =
     (let url = priv_url c @ uri;
          request = \<lparr>req_method = method, req_url = url,
                     req_data = (if method = ''POST'' then data else None)\<rparr>;
          c' = c\<lparr>sent := sent c @ [request]\<rparr>
      in case reply of
           Inl h \<Rightarrow> (Inl (APIError (api_error_message h)), c')
         | Inr result \<Rightarrow> (Inr result, c'))"

definition send_get :: "string \<Rightarrow> 'a reply \<Rightarrow> 'a action" where
  "send_get uri reply = send_request ''GET'' uri None reply"

definition send_post :: "server \<Rightarrow> string \<Rightarrow> json \<Rightarrow> json action" where
  "send_post srv uri data = send_request ''POST'' uri (Some data) (post_reply srv uri data)"

subsection \<open>The id properties\<close>

definition project_id_message :: string where
  "project_id_message =
     ''Define the project name as an object attribute like so'' @ [CHR 0x0A] @
     ''client.project = '' @ [CHR 0x27] @ ''Velocloud'' @ [CHR 0x27]"

definition suite_id_message :: string where
  "suite_id_message =
     ''Define the suite name as an object attribute like so'' @ [CHR 0x0A] @
     ''client.suite = '' @ [CHR 0x27] @ ''Master'' @ [CHR 0x27]"

text \<open>The truth value of an id attribute: \<open>None\<close> and \<open>0\<close> are false.\<close>

definition truthy_id :: "int option \<Rightarrow> bool" where
  "truthy_id v = (case v of None \<Rightarrow> False | Some i \<Rightarrow> i \<noteq> 0)"

definition project_id :: "client \<Rightarrow> error + int" where
  "project_id c =
     (case priv_project_id c of
        Some i \<Rightarrow> if i \<noteq> 0 then Inr i else Inl (EnvironmentError project_id_message)
      | None \<Rightarrow> Inl (EnvironmentError project_id_message))"

definition suite_id :: "client \<Rightarrow> error + int" where
  "suite_id c =
     (case priv_suite_id c of
        Some i \<Rightarrow> if i \<noteq> 0 then Inr i else Inl (EnvironmentError suite_id_message)
      | None \<Rightarrow> Inl (EnvironmentError suite_id_message))"

text \<open>\<open>if not project_id: project_id = self.project_id\<close>, the opening of several methods.\<close>

definition default_project_id :: "int option \<Rightarrow> int action" where
  "default_project_id project_id_arg c =
     (case project_id_arg of
        Some i \<Rightarrow> if i \<noteq> 0 then (Inr i, c) else (project_id c, c)
      | None \<Rightarrow> (project_id c, c))"

subsection \<open>Name resolution\<close>

text \<open>The loop \<open>for x in xs: if name == x["name"]: return x\<close>, then \<open>return None\<close>.\<close>

fun first_named :: "string \<Rightarrow> entity list \<Rightarrow> entity option" where
  "first_named n [] = None"
| "first_named n (x # xs) = (if n = ent_name x then Some x else first_named n xs)"

definition get_projects :: "server \<Rightarrow> entity list action" where
  "get_projects srv = send_get ''get_projects'' (get_projects_reply srv)"

definition get_project_by_name :: "server \<Rightarrow> string \<Rightarrow> entity option action" where
  "get_project_by_name srv project_name =
     and_then (get_projects srv) (\<lambda>projects. returns (first_named project_name projects))"

definition get_suites :: "server \<Rightarrow> int option \<Rightarrow> entity list action" where
  "get_suites srv project_id_arg =
     and_then (default_project_id project_id_arg) (\<lambda>pid.
       send_get (''get_suites/'' @ str_int pid) (get_suites_reply srv pid))"

definition get_suite_by_name :: "server \<Rightarrow> string \<Rightarrow> int option \<Rightarrow> entity option action" where
  "get_suite_by_name srv suite_name project_id_arg =
     and_then (default_project_id project_id_arg) (\<lambda>pid.
     and_then (get_suites srv (Some pid)) (\<lambda>suites.
       returns (first_named suite_name suites)))"

definition get_plans :: "server \<Rightarrow> int option \<Rightarrow> entity list action" where
  "get_plans srv project_id_arg =
     and_then (default_project_id project_id_arg) (\<lambda>pid.
       send_get (''get_plans/'' @ str_int pid) (get_plans_reply srv pid))"

definition get_plan_by_name :: "server \<Rightarrow> string \<Rightarrow> int option \<Rightarrow> entity option action" where
  "get_plan_by_name srv plan_name project_id_arg =
     and_then (default_project_id project_id_arg) (\<lambda>pid.
     and_then (get_plans srv (Some pid)) (\<lambda>plans.
       returns (first_named plan_name plans)))"

definition get_plan :: "server \<Rightarrow> int \<Rightarrow> plan_detail action" where
  "get_plan srv plan_id = send_get (''get_plan/'' @ str_int plan_id) (get_plan_reply srv plan_id)"

text \<open>
  The setters of \<open>project\<close> and \<open>suite\<close>: the name is stored first; the id is stored only
  when the lookup returned an entity. Subscripting the \<open>None\<close> of a failed lookup raises
  \<open>TypeError\<close>.
\<close>

definition set_project :: "server \<Rightarrow> string option \<Rightarrow> unit action" where
  "set_project srv project_name c =
     (let c1 = c\<lparr>priv_project := project_name\<rparr> in
      case project_name of
        None \<Rightarrow> (Inr (), c1\<lparr>priv_project_id := None\<rparr>)
      | Some n \<Rightarrow>
          (case get_project_by_name srv n c1 of
             (Inl e, c2) \<Rightarrow> (Inl e, c2)
           | (Inr None, c2) \<Rightarrow> (Inl TypeError, c2)
           | (Inr (Some p), c2) \<Rightarrow> (Inr (), c2\<lparr>priv_project_id := Some (ent_id p)\<rparr>)))"

definition set_suite :: "server \<Rightarrow> string option \<Rightarrow> unit action" where
  "set_suite srv suite_name c =
     (let c1 = c\<lparr>priv_suite := suite_name\<rparr> in
      case suite_name of
        None \<Rightarrow> (Inr (), c1\<lparr>priv_suite_id := None\<rparr>)
      | Some n \<Rightarrow>
          (case get_suite_by_name srv n None c1 of
             (Inl e, c2) \<Rightarrow> (Inl e, c2)
           | (Inr None, c2) \<Rightarrow> (Inl TypeError, c2)
           | (Inr (Some s), c2) \<Rightarrow> (Inr (), c2\<lparr>priv_suite_id := Some (ent_id s)\<rparr>)))"

text \<open>
  \<open>__init__\<close>: the attributes as assigned before the two setters run, and the constructor
  itself, which sets the project and the suite.
\<close>

definition fresh_client :: "string \<Rightarrow> string \<Rightarrow> string \<Rightarrow> client" where
  "fresh_client usr pwd base_url =
     \<lparr>user = usr, password = pwd, priv_run_id = None, cases_in_run = Map.empty,
      priv_url = (if suffix ''/'' base_url then base_url else base_url @ ''/'') @
                 ''index.php?/api/v2/'',
      priv_project = None, priv_project_id = None,
      priv_suite = None, priv_suite_id = None, sent = []\<rparr>"

definition init :: "server \<Rightarrow> string \<Rightarrow> string \<Rightarrow> string \<Rightarrow> (error + unit) \<times> client" where
  "init srv usr pwd base_url =
     and_then (set_project srv (Some ''Velocloud'')) (\<lambda>_. set_suite srv (Some ''Master''))
       (fresh_client usr pwd base_url)"

subsection \<open>Runs and their cases\<close>

definition get_cases_in_run :: "server \<Rightarrow> run_id \<Rightarrow> test list action" where
  "get_cases_in_run srv rid =
     send_get (''get_tests/'' @ str_run_id rid) (get_tests_reply srv rid)"

text \<open>
  The setter of \<open>run_id\<close>: the id is stored, then the cache is assigned a new dictionary
  with the one key. When the fetch raises, the assignment of the cache does not happen.
\<close>

definition set_run_id :: "server \<Rightarrow> run_id \<Rightarrow> unit action" where
  "set_run_id srv rid c =
     (let c1 = c\<lparr>priv_run_id := rid\<rparr> in
      case get_cases_in_run srv rid c1 of
        (Inl e, c2) \<Rightarrow> (Inl e, c2)
      | (Inr tests, c2) \<Rightarrow> (Inr (), c2\<lparr>cases_in_run := [rid \<mapsto> tests]\<rparr>))"

text \<open>The loop \<open>for elem in tests: new_list.append(elem['case_id'])\<close>, onto a list.\<close>

fun append_case_ids :: "int list \<Rightarrow> test list \<Rightarrow> error + int list" where
  "append_case_ids acc [] = Inr acc"
| "append_case_ids acc (t # ts) =
     (case test_case_id t of
        None \<Rightarrow> Inl KeyError
      | Some cid \<Rightarrow> append_case_ids (acc @ [cid]) ts)"

text \<open>
  \<open>list(set(test_list) - set(new_list))\<close>. The order in which Python lists a set is the
  interpreter's; the model lists each remaining element once, in the order of
  \<open>test_list\<close>, and no statement below depends on the order.
\<close>

definition set_difference :: "int list \<Rightarrow> int list \<Rightarrow> int list" where
  "set_difference test_list new_list = remdups (filter (\<lambda>x. x \<notin> set new_list) test_list)"

definition check_test_id_duplicate :: "server \<Rightarrow> int list option \<Rightarrow> run_id \<Rightarrow> int list action" where
  "check_test_id_duplicate srv test_list rid =
     and_then (send_get (''get_tests/'' @ str_run_id rid) (get_tests_reply srv rid))
       (\<lambda>test_case_list.
     and_then (lift (append_case_ids [] test_case_list)) (\<lambda>new_list.
       case test_list of
         None \<Rightarrow> raise TypeError
       | Some candidates \<Rightarrow> returns (set_difference candidates new_list)))"

text \<open>
  The loop of \<open>get_run_id\<close>: the first entry whose first run's name contains the name;
  falling off the end returns \<open>None\<close>. \<open>each["runs"][0]\<close> raises on an entry without runs.
\<close>

fun scan_runs :: "string \<Rightarrow> entry list \<Rightarrow> error + int option" where
  "scan_runs rname [] = Inr None"
| "scan_runs rname (each # rest) =
     (case entry_runs each of
        [] \<Rightarrow> Inl IndexError
      | r # _ \<Rightarrow> if str_contains rname (run_name r) then Inr (Some (run_ident r))
                 else scan_runs rname rest)"

definition get_run_id :: "server \<Rightarrow> string \<Rightarrow> string \<Rightarrow> run_id action" where
  "get_run_id srv plan_name rname =
     and_then (get_plan_by_name srv plan_name None) (\<lambda>plan.
       case plan of
         None \<Rightarrow> raise TypeError
       | Some p \<Rightarrow>
           and_then (get_plan srv (ent_id p)) (\<lambda>complete_plan.
             lift (scan_runs rname (plan_entries complete_plan))))"

subsection \<open>Plan entries\<close>

definition add_plan_entry :: "server \<Rightarrow> int \<Rightarrow> json \<Rightarrow> json action" where
  "add_plan_entry srv plan_id data = send_post srv (''add_plan_entry/'' @ str_int plan_id) data"

text \<open>\<open>format_testrun\<close> puts the current time before the name. (The call of
  \<open>get_timestamp()\<close> among the arguments of \<open>format\<close> in
  \<open>add_default_test_run_entry_to_plan\<close> has no placeholder in the format string and no
  effect on the name.)\<close>

definition format_testrun :: "server \<Rightarrow> string \<Rightarrow> string" where
  "format_testrun srv test_run = now_pacific srv @ '' - '' @ test_run"

text \<open>The truth value of the argument \<open>case_ids\<close>: \<open>None\<close> and the empty list are false.\<close>

definition truthy_list :: "int list option \<Rightarrow> bool" where
  "truthy_list v = (case v of None \<Rightarrow> False | Some xs \<Rightarrow> xs \<noteq> [])"

definition json_of_case_ids :: "int list option \<Rightarrow> json" where
  "json_of_case_ids v = (case v of None \<Rightarrow> JNull | Some xs \<Rightarrow> JList (map JInt xs))"

definition test_run_entry :: "int \<Rightarrow> string \<Rightarrow> bool \<Rightarrow> int list option \<Rightarrow> json" where
  "test_run_entry sid test_run_name include_all case_ids =
     JObj [(''suite_id'', JInt sid),
           (''name'', JStr test_run_name),
           (''assignedto_id'', JNull),
           (''include_all'', JBool include_all),
           (''config_ids'', JList []),
           (''case_ids'', json_of_case_ids case_ids),
           (''runs'', JList [JObj [(''include_all'', JBool False),
                                   (''case_ids'', json_of_case_ids case_ids),
                                   (''config_ids'', JList [])]])]"

definition plan_not_found_message :: "string \<Rightarrow> string" where
  "plan_not_found_message plan_name =
     ''testrail plan '' @ [CHR 0x27] @ plan_name @ [CHR 0x27] @ '' not found''"

definition add_default_test_run_entry_to_plan ::
  "server \<Rightarrow> string \<Rightarrow> string \<Rightarrow> int list option \<Rightarrow> json action" where
  "add_default_test_run_entry_to_plan srv test_run_name plan_name case_ids =
     (let include_all = (if truthy_list case_ids then False else True) in
      if \<not> include_all \<and> \<not> truthy_list case_ids then returns (JBool False)
      else
        and_then (get_plan_by_name srv plan_name None) (\<lambda>plan.
          case plan of
            None \<Rightarrow> raise (APIError (plan_not_found_message plan_name))
          | Some p \<Rightarrow>
              and_then (\<lambda>c. (suite_id c, c)) (\<lambda>sid.
                add_plan_entry srv (ent_id p)
                  (test_run_entry sid (format_testrun srv test_run_name) include_all case_ids))))"

text \<open>
  The \<open>for ... else\<close> of \<open>update_test_run\<close>: the entry id of the first run of the first
  entry whose name contains the run name; \<open>None\<close> stands for the \<open>else\<close> branch.
\<close>

fun find_entry_id :: "string \<Rightarrow> entry list \<Rightarrow> error + string option" where
  "find_entry_id rname [] = Inr None"
| "find_entry_id rname (elem # rest) =
     (if str_contains rname (entry_name elem)
      then (case entry_runs elem of [] \<Rightarrow> Inl IndexError | r # _ \<Rightarrow> Inr (Some (run_entry_id r)))
      else find_entry_id rname rest)"

definition update_entry_body :: "int list \<Rightarrow> json" where
  "update_entry_body case_ids =
     JObj [(''include_all'', JBool False), (''case_ids'', JList (map JInt case_ids))]"

definition update_test_run ::
  "server \<Rightarrow> string \<Rightarrow> string \<Rightarrow> int list option \<Rightarrow> json action" where
  "update_test_run srv test_run_name plan_name case_ids =
     and_then (get_run_id srv plan_name test_run_name) (\<lambda>test_run_id.
     and_then (get_plan_by_name srv plan_name None) (\<lambda>plan.
       case plan of
         None \<Rightarrow> raise TypeError
       | Some p \<Rightarrow>
           and_then (get_plan srv (ent_id p)) (\<lambda>plan_detail.
           and_then (lift (find_entry_id test_run_name (plan_entries plan_detail))) (\<lambda>found.
             case found of
               None \<Rightarrow> returns (JBool False)
             | Some entry_id \<Rightarrow>
                 and_then (check_test_id_duplicate srv case_ids test_run_id) (\<lambda>new_ids.
                   if new_ids = [] then returns (JBool False)
                   else
                     and_then (get_cases_in_run srv test_run_id) (\<lambda>existing_tests.
                     and_then (lift (append_case_ids new_ids existing_tests)) (\<lambda>merged.
                       send_post srv
                         (''update_plan_entry/'' @ str_int (ent_id p) @ ''/'' @ entry_id)
                         (update_entry_body merged))))))))"

subsection \<open>Results\<close>

text \<open>
  \<open>__check_case_in_run\<close> returns the \<open>id\<close> of the first test of the run with the case id
  (\<open>None\<close> when that test has no \<open>id\<close>), or \<open>False\<close>. The list of tests is the cached one
  when the run id is a key of the cache, and is fetched otherwise.
\<close>

datatype id_or_false = Ident "int option" | PyFalse

fun find_case :: "int \<Rightarrow> test list \<Rightarrow> id_or_false" where
  "find_case case_id [] = PyFalse"
| "find_case case_id (test_case # rest) =
     (if test_case_id test_case = Some case_id then Ident (test_id test_case)
      else find_case case_id rest)"

definition check_case_in_run :: "server \<Rightarrow> run_id \<Rightarrow> int \<Rightarrow> id_or_false action" where
  "check_case_in_run srv rid case_id =
     and_then (\<lambda>c. case cases_in_run c rid of
                      None \<Rightarrow> get_cases_in_run srv rid c
                    | Some tc_list \<Rightarrow> (Inr tc_list, c))
       (\<lambda>tc_list. returns (find_case case_id tc_list))"

fun truthy :: "id_or_false \<Rightarrow> bool" where
  "truthy PyFalse = False"
| "truthy (Ident None) = False"
| "truthy (Ident (Some i)) = (i \<noteq> 0)"

fun json_of_id :: "id_or_false \<Rightarrow> json" where
  "json_of_id PyFalse = JBool False"
| "json_of_id (Ident None) = JNull"
| "json_of_id (Ident (Some i)) = JInt i"

text \<open>
  The pytest report. \<open>duration\<close> is a float: a finite one is the rational it denotes, and
  there are the three that are not numbers of seconds.
\<close>

datatype pyfloat = Finite rat | NaN | PosInf | NegInf

record report =
  outcome :: string
  duration :: pyfloat
  longreprtext :: string

text \<open>\<open>math.ceil\<close> on a float: an integer, or \<open>ValueError\<close> for NaN and \<open>OverflowError\<close>
  for an infinity.\<close>

definition math_ceil :: "pyfloat \<Rightarrow> error + int" where
  "math_ceil d =
     (case d of
        Finite q \<Rightarrow> Inr \<lceil>q\<rceil>
      | NaN \<Rightarrow> Inl ValueError
      | PosInf \<Rightarrow> Inl OverflowError
      | NegInf \<Rightarrow> Inl OverflowError)"

text \<open>
  What \<open>%Hh %Mm %Ss\<close> prints for \<open>n\<close> seconds after the epoch, when the conversion
  returns: the hour of the day, the minute and the second, two digits each.
\<close>

definition two_digits :: "nat \<Rightarrow> string" where
  "two_digits n = [''0123456789'' ! (n div 10), ''0123456789'' ! (n mod 10)]"

definition hms_text :: "int \<Rightarrow> string" where
  "hms_text secs =
     two_digits (nat ((secs div 3600) mod 24)) @ ''h '' @
     two_digits (nat ((secs div 60) mod 60)) @ ''m '' @
     two_digits (nat (secs mod 60)) @ ''s''"

text \<open>
  \<open>time.strftime('%Hh %Mm %Ss', time.gmtime(math.ceil(report.duration)))\<close>: the exception
  of \<open>math.ceil\<close>, else the exception of the host's conversion, else the text.
\<close>

definition elapsed_text :: "server \<Rightarrow> pyfloat \<Rightarrow> error + string" where
  "elapsed_text srv d =
     (case math_ceil d of
        Inl e \<Rightarrow> Inl e
      | Inr n \<Rightarrow> (case gmtime_raises srv n of Some e \<Rightarrow> Inl e | None \<Rightarrow> Inr (hms_text n)))"

definition status_id :: "string \<Rightarrow> int" where
  "status_id outc = (case result_map outc of Some v \<Rightarrow> v | None \<Rightarrow> 5)"

text \<open>
  The dictionary \<open>data\<close> of \<open>update_test_result\<close>. Its values are evaluated in the order
  of the source; the only one that may raise is \<open>elapsed\<close>, and then no dictionary is built.
\<close>

definition result_body :: "id_or_false \<Rightarrow> int \<Rightarrow> string \<Rightarrow> string \<Rightarrow> json" where
  "result_body tid status elapsed comment =
     JObj [(''results'',
            JList [JObj [(''test_id'', json_of_id tid),
                         (''status_id'', JInt status),
                         (''elapsed'', JStr elapsed),
                         (''comment'', JStr comment)]])]"

definition result_data :: "server \<Rightarrow> id_or_false \<Rightarrow> report \<Rightarrow> error + json" where
  "result_data srv tid rep =
     (case elapsed_text srv (duration rep) of
        Inl e \<Rightarrow> Inl e
      | Inr elapsed \<Rightarrow>
          Inr (result_body tid (status_id (outcome rep)) elapsed (longreprtext rep)))"

definition update_test_result :: "server \<Rightarrow> run_id \<Rightarrow> int \<Rightarrow> report \<Rightarrow> json action" where
  "update_test_result srv rid case_id rep =
     and_then (check_case_in_run srv rid case_id) (\<lambda>tid.
       if \<not> truthy tid then returns (JBool False)
       else
         and_then (lift (result_data srv tid rep)) (\<lambda>data.
           send_post srv (''add_results/'' @ str_run_id rid) data))"

subsection \<open>Requests and bodies, for the statements below\<close>

text \<open>The GET and the POST request an instance issues for a URI.\<close>

definition get_request :: "client \<Rightarrow> string \<Rightarrow> request" where
  "get_request c uri = \<lparr>req_method = ''GET'', req_url = priv_url c @ uri, req_data = None\<rparr>"

definition post_request :: "client \<Rightarrow> string \<Rightarrow> json \<Rightarrow> request" where
  "post_request c uri data =
     \<lparr>req_method = ''POST'', req_url = priv_url c @ uri, req_data = Some data\<rparr>"

text \<open>The requests issued between two states of an instance.\<close>

definition issued :: "client \<Rightarrow> client \<Rightarrow> request list" where
  "issued c c' = drop (length (sent c)) (sent c')"

text \<open>\<open>d[k]\<close> on a JSON object, \<open>None\<close> on anything else and on a missing key.\<close>

definition field :: "string \<Rightarrow> json \<Rightarrow> json option" where
  "field k j = (case j of JObj kvs \<Rightarrow> map_of kvs k | _ \<Rightarrow> None)"

subsection \<open>A sample service and session\<close>

text \<open>
  One project, one suite, one plan with two entries whose names both contain \<open>smoke\<close>;
  every run holds the cases 11 and 12; every POST is answered with an empty object. The
  host converts the seconds that fall in the years an \<open>int\<close> can hold and raises
  \<open>OSError\<close> for the others.
\<close>

definition sample_run :: run where
  "sample_run = \<lparr>run_name = ''2026-01-01 10:00 - smoke'', run_ident = 7, run_entry_id = ''e1''\<rparr>"

definition sample_tests :: "test list" where
  "sample_tests = [\<lparr>test_id = Some 100, test_case_id = Some 11\<rparr>,
                   \<lparr>test_id = Some 101, test_case_id = Some 12\<rparr>]"

definition sample_run2 :: run where
  "sample_run2 = \<lparr>run_name = ''2026-01-03 10:00 - smoke'', run_ident = 8, run_entry_id = ''e2''\<rparr>"

definition sample_detail :: plan_detail where
  "sample_detail =
     \<lparr>plan_entries =
        [\<lparr>entry_name = ''2026-01-01 10:00 - smoke'', entry_runs = [sample_run]\<rparr>,
         \<lparr>entry_name = ''2026-01-03 10:00 - smoke'', entry_runs = [sample_run2]\<rparr>]\<rparr>"

definition sample_server :: server where
  "sample_server =
     \<lparr>get_projects_reply = Inr [\<lparr>ent_name = ''Velocloud'', ent_id = 1\<rparr>],
      get_suites_reply = (\<lambda>pid. Inr [\<lparr>ent_name = ''Master'', ent_id = 2\<rparr>]),
      get_plans_reply = (\<lambda>pid. Inr [\<lparr>ent_name = ''Nightly'', ent_id = 3\<rparr>]),
      get_plan_reply = (\<lambda>plan_id. Inr sample_detail),
      get_tests_reply = (\<lambda>rid. Inr sample_tests),
      post_reply = (\<lambda>uri data. Inr (JObj [])),
      now_pacific = ''2026-01-02 09:30'',
      gmtime_raises = (\<lambda>n. if - 67768040609740800 \<le> n \<and> n \<le> 67767976233532799 then None
                            else Some OSError)\<rparr>"

definition sample_client :: client where
  "sample_client =
     \<lparr>user = ''u'', password = ''p'', priv_run_id = None, cases_in_run = Map.empty,
      priv_url = ''https://t/index.php?/api/v2/'',
      priv_project = Some ''Velocloud'', priv_project_id = Some 1,
      priv_suite = Some ''Master'', priv_suite_id = Some 2, sent = []\<rparr>"

definition sample_report :: report where
  "sample_report = \<lparr>outcome = ''skipped'', duration = Finite (3 / 2), longreprtext = ''none''\<rparr>"

definition long_report :: report where
  "long_report =
     \<lparr>outcome = ''passed'', duration = Finite 100000000000000000, longreprtext = ''none''\<rparr>"

section \<open>Properties\<close>

subsection \<open>Auxiliary facts\<close>

lemma str_contains_sublist: "str_contains sub s \<longleftrightarrow> sublist sub s"
  by (induction s) (auto simp: sublist_Cons_right)

lemma first_named_find: "first_named n xs = find (\<lambda>x. ent_name x = n) xs"
  by (induction xs) auto

lemma find_absent: "\<forall>x \<in> set xs. \<not> P x \<Longrightarrow> find P xs = None"
  by (induction xs) auto

lemma and_then_Inr: "m c = (Inr x, c') \<Longrightarrow> and_then m f c = f x c'"
  by (simp add: and_then_def)

lemma send_get_Inr:
  "send_get uri (Inr x) c =
     (Inr x, c\<lparr>sent := sent c @ [\<lparr>req_method = ''GET'', req_url = priv_url c @ uri, req_data = None\<rparr>]\<rparr>)"
  by (simp add: send_get_def send_request_def)

lemma send_get_Inl:
  "send_get uri (Inl h) c =
     (Inl (APIError (api_error_message h)),
      c\<lparr>sent := sent c @ [\<lparr>req_method = ''GET'', req_url = priv_url c @ uri, req_data = None\<rparr>]\<rparr>)"
  by (simp add: send_get_def send_request_def)

lemma project_id_sent [simp]: "project_id (c\<lparr>sent := s\<rparr>) = project_id c"
  by (simp add: project_id_def)

lemma suite_id_sent [simp]: "suite_id (c\<lparr>sent := s\<rparr>) = suite_id c"
  by (simp add: suite_id_def)

lemma default_project_id_snd [simp]: "snd (default_project_id a c) = c"
  by (simp add: default_project_id_def split: option.splits)

lemma default_project_id_nonzero: "fst (default_project_id a c) = Inr pid \<Longrightarrow> pid \<noteq> 0"
  by (auto simp: default_project_id_def project_id_def split: option.splits if_splits)

lemma default_project_id_Some: "pid \<noteq> 0 \<Longrightarrow> default_project_id (Some pid) c = (Inr pid, c)"
  by (simp add: default_project_id_def)

lemma default_project_id_None: "default_project_id None c = (project_id c, c)"
  by (simp add: default_project_id_def)

lemma default_project_id_pair:
  "fst (default_project_id a c) = Inr pid \<Longrightarrow> default_project_id a c = (Inr pid, c)"
  by (metis default_project_id_snd prod.collapse)

lemma get_projects_ok:
  "get_projects_reply srv = Inr projects \<Longrightarrow>
   get_project_by_name srv n c =
     (Inr (first_named n projects),
      c\<lparr>sent := sent c @ [\<lparr>req_method = ''GET'', req_url = priv_url c @ ''get_projects'', req_data = None\<rparr>]\<rparr>)"
  by (simp add: get_project_by_name_def get_projects_def and_then_def send_get_Inr returns_def)

lemma get_suite_by_name_ok:
  assumes "fst (default_project_id a c) = Inr pid" and "get_suites_reply srv pid = Inr suites"
  shows "get_suite_by_name srv n a c =
     (Inr (first_named n suites),
      c\<lparr>sent := sent c @ [\<lparr>req_method = ''GET'', req_url = priv_url c @ ''get_suites/'' @ str_int pid, req_data = None\<rparr>]\<rparr>)"
proof -
  have 1: "default_project_id a c = (Inr pid, c)"
    using assms(1) by (rule default_project_id_pair)
  have 2: "default_project_id (Some pid) c = (Inr pid, c)"
    using assms(1) by (simp add: default_project_id_nonzero default_project_id_Some)
  show ?thesis
    by (simp add: get_suite_by_name_def get_suites_def and_then_def 1 2 assms(2) send_get_Inr returns_def)
qed

lemma get_plan_by_name_ok:
  assumes "fst (default_project_id a c) = Inr pid" and "get_plans_reply srv pid = Inr plans"
  shows "get_plan_by_name srv n a c =
     (Inr (first_named n plans),
      c\<lparr>sent := sent c @ [\<lparr>req_method = ''GET'', req_url = priv_url c @ ''get_plans/'' @ str_int pid, req_data = None\<rparr>]\<rparr>)"
proof -
  have 1: "default_project_id a c = (Inr pid, c)"
    using assms(1) by (rule default_project_id_pair)
  have 2: "default_project_id (Some pid) c = (Inr pid, c)"
    using assms(1) by (simp add: default_project_id_nonzero default_project_id_Some)
  show ?thesis
    by (simp add: get_plan_by_name_def get_plans_def and_then_def 1 2 assms(2) send_get_Inr returns_def)
qed

subsection \<open>The id properties before a resolution\<close>

text \<open>
  Claim C5. In a session whose project id (suite id) attribute is unresolved, that is
  \<open>None\<close> or zero, reading the property \<open>project_id\<close> (\<open>suite_id\<close>) raises the
  \<open>EnvironmentError\<close> whose text tells the caller to set the name; in no session does
  reading either property raise \<open>APIError\<close>.
\<close>

theorem unresolved_id_raises_configuration_error:
  "(\<not> truthy_id (priv_project_id c) \<longrightarrow> project_id c = Inl (EnvironmentError project_id_message))
   \<and> (\<not> truthy_id (priv_suite_id c) \<longrightarrow> suite_id c = Inl (EnvironmentError suite_id_message))
   \<and> (\<forall>m. project_id c \<noteq> Inl (APIError m)) \<and> (\<forall>m. suite_id c \<noteq> Inl (APIError m))"
  by (simp add: truthy_id_def project_id_def suite_id_def split: option.splits)

text \<open>The statement above at an instance whose setters have not run.\<close>

theorem unresolved_id_raises_configuration_error_witness:
  "\<not> truthy_id (priv_project_id (fresh_client ''u'' ''p'' ''https://t''))
   \<and> project_id (fresh_client ''u'' ''p'' ''https://t'') = Inl (EnvironmentError project_id_message)
   \<and> \<not> truthy_id (priv_suite_id (fresh_client ''u'' ''p'' ''https://t''))
   \<and> suite_id (fresh_client ''u'' ''p'' ''https://t'') = Inl (EnvironmentError suite_id_message)"
  using unresolved_id_raises_configuration_error [of "fresh_client ''u'' ''p'' ''https://t''"]
  by (simp add: fresh_client_def truthy_id_def)

subsection \<open>Lookup by name\<close>

text \<open>
  Claim C9. When the service lists the projects (the suites of the project), the lookup
  by name returns the first listed entity whose name equals the given one, and returns
  \<open>None\<close>, raising nothing, when no listed entity has that name.
\<close>

theorem name_resolution_absent:
  "(get_projects_reply srv = Inr projects \<longrightarrow>
      fst (get_project_by_name srv n c) = Inr (find (\<lambda>p. ent_name p = n) projects) \<and>
      ((\<forall>p \<in> set projects. ent_name p \<noteq> n) \<longrightarrow> fst (get_project_by_name srv n c) = Inr None))
   \<and> (fst (default_project_id arg c) = Inr pid \<and> get_suites_reply srv pid = Inr suites \<longrightarrow>
      fst (get_suite_by_name srv n arg c) = Inr (find (\<lambda>s. ent_name s = n) suites) \<and>
      ((\<forall>s \<in> set suites. ent_name s \<noteq> n) \<longrightarrow> fst (get_suite_by_name srv n arg c) = Inr None))"
  by (simp add: get_projects_ok get_suite_by_name_ok first_named_find find_absent)

text \<open>The statement above at the sample service and session.\<close>

theorem name_resolution_absent_witness:
  "get_projects_reply sample_server = Inr [\<lparr>ent_name = ''Velocloud'', ent_id = 1\<rparr>]
   \<and> ent_name \<lparr>ent_name = ''Velocloud'', ent_id = 1\<rparr> \<noteq> ''Velo''
   \<and> fst (get_project_by_name sample_server ''Velo'' sample_client) = Inr None
   \<and> fst (default_project_id None sample_client) = Inr 1
   \<and> get_suites_reply sample_server 1 = Inr [\<lparr>ent_name = ''Master'', ent_id = 2\<rparr>]
   \<and> ent_name \<lparr>ent_name = ''Master'', ent_id = 2\<rparr> \<noteq> ''master''
   \<and> fst (get_suite_by_name sample_server ''master'' None sample_client) = Inr None"
proof -
  have p: "get_projects_reply sample_server = Inr [\<lparr>ent_name = ''Velocloud'', ent_id = 1\<rparr>]"
    by (simp add: sample_server_def)
  have d: "fst (default_project_id None sample_client) = Inr 1"
    by (simp add: default_project_id_def project_id_def sample_client_def)
  have s: "get_suites_reply sample_server 1 = Inr [\<lparr>ent_name = ''Master'', ent_id = 2\<rparr>]"
    by (simp add: sample_server_def)
  have "fst (get_project_by_name sample_server ''Velo'' sample_client) = Inr None"
    using name_resolution_absent
      [where srv = sample_server and projects = "[\<lparr>ent_name = ''Velocloud'', ent_id = 1\<rparr>]"
         and n = "''Velo''" and c = sample_client] p
    by simp
  moreover have "fst (get_suite_by_name sample_server ''master'' None sample_client) = Inr None"
    using name_resolution_absent
      [where srv = sample_server and n = "''master''" and c = sample_client and arg = None
         and pid = 1 and suites = "[\<lparr>ent_name = ''Master'', ent_id = 2\<rparr>]"] d s
    by simp
  ultimately show ?thesis using p d s by simp
qed

subsection \<open>Deduplication against a run\<close>

lemma append_case_ids_all:
  "map test_case_id tests = map Some E \<Longrightarrow> append_case_ids acc tests = Inr (acc @ E)"
proof (induction tests arbitrary: acc E)
  case Nil
  then show ?case by simp
next
  case (Cons t ts)
  then obtain e E' where E: "E = e # E'" "test_case_id t = Some e" "map test_case_id ts = map Some E'"
    by (cases E) auto
  with Cons.IH [of E' "acc @ [e]"] show ?case by simp
qed

lemma set_set_difference: "set (set_difference xs ys) = set xs - set ys"
  by (auto simp: set_difference_def)

lemma distinct_set_difference: "distinct (set_difference xs ys)"
  by (simp add: set_difference_def)

lemma check_test_id_duplicate_ok:
  assumes "get_tests_reply srv rid = Inr tests" and "map test_case_id tests = map Some E"
  shows "check_test_id_duplicate srv (Some candidates) rid c =
           (Inr (set_difference candidates E),
            c\<lparr>sent := sent c @ [get_request c (''get_tests/'' @ str_run_id rid)]\<rparr>)"
  using assms
  by (simp add: check_test_id_duplicate_def and_then_def send_get_Inr lift_def returns_def
      append_case_ids_all [where acc = "[]", simplified] get_request_def)

text \<open>
  Claim C3. When the tests of the run carry the case ids \<open>E\<close>, \<open>check_test_id_duplicate\<close>
  returns a list without repetitions whose elements are exactly the candidates that are
  not in \<open>E\<close>.
\<close>

theorem check_test_id_duplicate_difference:
  assumes "get_tests_reply srv rid = Inr tests" and "map test_case_id tests = map Some E"
  shows "\<exists>ids. fst (check_test_id_duplicate srv (Some candidates) rid c) = Inr ids
           \<and> set ids = set candidates - set E \<and> distinct ids
           \<and> (\<forall>x \<in> set ids. x \<in> set candidates \<and> x \<notin> set E)
           \<and> (\<forall>x \<in> set candidates. x \<notin> set E \<longrightarrow> x \<in> set ids)"
  using check_test_id_duplicate_ok [OF assms, of candidates c]
  by (simp add: set_set_difference distinct_set_difference)

text \<open>The statement above at the sample service and session.\<close>

theorem check_test_id_duplicate_difference_witness:
  "get_tests_reply sample_server (Some 7) = Inr sample_tests
   \<and> map test_case_id sample_tests = map Some [11, 12]
   \<and> (\<exists>ids. fst (check_test_id_duplicate sample_server (Some [13, 11, 13]) (Some 7) sample_client)
               = Inr ids
         \<and> set ids = set [13, 11, 13] - set [11, 12] \<and> distinct ids)"
proof -
  have t: "get_tests_reply sample_server (Some 7) = Inr sample_tests"
    by (simp add: sample_server_def)
  have m: "map test_case_id sample_tests = map Some [11, 12]"
    by (simp add: sample_tests_def)
  from check_test_id_duplicate_difference [OF t m, of "[13, 11, 13]" sample_client] t m
  show ?thesis by blast
qed

subsection \<open>Assigning the run id\<close>

lemma get_cases_in_run_ok:
  "get_tests_reply srv rid = Inr tests \<Longrightarrow>
   get_cases_in_run srv rid c =
     (Inr tests, c\<lparr>sent := sent c @ [get_request c (''get_tests/'' @ str_run_id rid)]\<rparr>)"
  by (simp add: get_cases_in_run_def send_get_Inr get_request_def)

lemma set_run_id_fetch_fails:
  "get_tests_reply srv R = Inl h \<Longrightarrow>
   fst (set_run_id srv R c) = Inl (APIError (api_error_message h))
   \<and> cases_in_run (snd (set_run_id srv R c)) = cases_in_run c
   \<and> priv_run_id (snd (set_run_id srv R c)) = R"
  by (simp add: set_run_id_def Let_def get_cases_in_run_def send_get_Inl)

text \<open>
  Claim C10. Assigning \<open>run_id\<close>, when the service answers with the tests of the run,
  leaves a cache whose only key is that run id, bound to the fetched list: the entries of
  all other run ids are gone.
\<close>

theorem set_run_id_replaces_cache:
  assumes "get_tests_reply srv R = Inr tests"
  shows "fst (set_run_id srv R c) = Inr ()
         \<and> cases_in_run (snd (set_run_id srv R c)) = [R \<mapsto> tests]
         \<and> dom (cases_in_run (snd (set_run_id srv R c))) = {R}
         \<and> (\<forall>r. r \<noteq> R \<longrightarrow> cases_in_run (snd (set_run_id srv R c)) r = None)
         \<and> priv_run_id (snd (set_run_id srv R c)) = R"
  by (simp add: set_run_id_def Let_def get_cases_in_run_ok [OF assms])

text \<open>The statement above at the sample service and session.\<close>

theorem set_run_id_replaces_cache_witness:
  "get_tests_reply sample_server (Some 7) = Inr sample_tests
   \<and> cases_in_run (snd (set_run_id sample_server (Some 7)
        (sample_client\<lparr>cases_in_run := [Some 4 \<mapsto> []]\<rparr>))) = [Some 7 \<mapsto> sample_tests]
   \<and> cases_in_run (snd (set_run_id sample_server (Some 7)
        (sample_client\<lparr>cases_in_run := [Some 4 \<mapsto> []]\<rparr>))) (Some 4) = None"
proof -
  have t: "get_tests_reply sample_server (Some 7) = Inr sample_tests"
    by (simp add: sample_server_def)
  from set_run_id_replaces_cache [OF t, of "sample_client\<lparr>cases_in_run := [Some 4 \<mapsto> []]\<rparr>"] t
  show ?thesis by simp
qed

subsection \<open>Results for a case that is not in the run\<close>

lemma find_case_absent:
  "\<forall>t \<in> set tcs. test_case_id t \<noteq> Some case_id \<Longrightarrow> find_case case_id tcs = PyFalse"
  by (induction tcs) auto

lemma issued_append [simp]: "issued c (c'\<lparr>sent := sent c @ rs\<rparr>) = rs"
  by (simp add: issued_def)

lemma issued_self [simp]: "issued c c = []"
  by (simp add: issued_def)

lemma check_case_in_run_cached:
  "cases_in_run c rid = Some tcs \<Longrightarrow>
   check_case_in_run srv rid case_id c = (Inr (find_case case_id tcs), c)"
  by (simp add: check_case_in_run_def and_then_def returns_def)

lemma check_case_in_run_fetched:
  "cases_in_run c rid = None \<Longrightarrow> get_tests_reply srv rid = Inr tcs \<Longrightarrow>
   check_case_in_run srv rid case_id c =
     (Inr (find_case case_id tcs),
      c\<lparr>sent := sent c @ [get_request c (''get_tests/'' @ str_run_id rid)]\<rparr>)"
  by (simp add: check_case_in_run_def and_then_def returns_def get_cases_in_run_ok)

text \<open>
  Claim C6. When the case id is not among the case ids of the run's list of tests (the
  cached list, or the fetched one when the run id is not cached), \<open>update_test_result\<close>
  returns \<open>False\<close>, raises nothing, and issues no POST: it issues the one GET of the
  fetch, or nothing at all.
\<close>

theorem update_test_result_absent_case:
  assumes "cases_in_run c rid = Some tcs
           \<or> (cases_in_run c rid = None \<and> get_tests_reply srv rid = Inr tcs)"
      and "\<forall>t \<in> set tcs. test_case_id t \<noteq> Some case_id"
  shows "fst (update_test_result srv rid case_id rep c) = Inr (JBool False)
         \<and> issued c (snd (update_test_result srv rid case_id rep c)) =
             (if cases_in_run c rid = None then [get_request c (''get_tests/'' @ str_run_id rid)]
              else [])
         \<and> (\<forall>r \<in> set (issued c (snd (update_test_result srv rid case_id rep c))).
               req_method r \<noteq> ''POST'')"
proof -
  have nf: "find_case case_id tcs = PyFalse"
    using assms(2) by (rule find_case_absent)
  from assms(1) show ?thesis
  proof
    assume "cases_in_run c rid = Some tcs"
    then show ?thesis
      by (simp add: update_test_result_def and_then_def check_case_in_run_cached nf returns_def)
  next
    assume "cases_in_run c rid = None \<and> get_tests_reply srv rid = Inr tcs"
    then show ?thesis
      by (simp add: update_test_result_def and_then_def check_case_in_run_fetched nf returns_def
          get_request_def)
  qed
qed

text \<open>The statement above at the sample service and session.\<close>

theorem update_test_result_absent_case_witness:
  "cases_in_run sample_client (Some 7) = None
   \<and> get_tests_reply sample_server (Some 7) = Inr sample_tests
   \<and> Some 13 \<notin> set (map test_case_id sample_tests)
   \<and> fst (update_test_result sample_server (Some 7) 13 sample_report sample_client)
       = Inr (JBool False)
   \<and> issued sample_client
        (snd (update_test_result sample_server (Some 7) 13 sample_report sample_client))
       = [get_request sample_client ''get_tests/7'']"
proof -
  have a: "cases_in_run sample_client (Some 7) = None"
    by (simp add: sample_client_def)
  have t: "get_tests_reply sample_server (Some 7) = Inr sample_tests"
    by (simp add: sample_server_def)
  have n: "\<forall>t \<in> set sample_tests. test_case_id t \<noteq> Some 13"
    by (simp add: sample_tests_def)
  have s: "str_run_id (Some 7) = ''7''"
    by (simp add: str_run_id_def str_int_def str_nat.simps)
  from update_test_result_absent_case
         [of sample_client "Some 7" sample_tests sample_server 13 sample_report] a t n s
  show ?thesis by (simp add: sample_tests_def)
qed

subsection \<open>The status mapping and the posted result\<close>

lemma status_id_cases: "status_id outc = (if outc = ''passed'' then 1 else 5)"
  by (simp add: status_id_def result_map_def)

lemma check_case_in_run_issued:
  "snd (check_case_in_run srv rid case_id c) =
     c\<lparr>sent := sent c @ issued c (snd (check_case_in_run srv rid case_id c))\<rparr>
   \<and> (\<forall>r \<in> set (issued c (snd (check_case_in_run srv rid case_id c))). req_method r = ''GET'')"
  by (auto simp: check_case_in_run_def and_then_def returns_def get_cases_in_run_def send_get_def
      send_request_def Let_def split: option.splits sum.splits)


lemma send_post_state:
  "snd (send_post srv uri data c) = c\<lparr>sent := sent c @ [post_request c uri data]\<rparr>"
  by (simp add: send_post_def send_request_def post_request_def Let_def split: sum.splits)

lemma send_post_result:
  "fst (send_post srv uri data c) =
     (case post_reply srv uri data of
        Inl h \<Rightarrow> Inl (APIError (api_error_message h))
      | Inr r \<Rightarrow> Inr r)"
  by (simp add: send_post_def send_request_def Let_def split: sum.splits)

lemma result_body_fields:
  "\<exists>res. result_body (Ident (Some T)) status elapsed comment = JObj [(''results'', JList [res])]
         \<and> field ''test_id'' res = Some (JInt T)
         \<and> field ''status_id'' res = Some (JInt status)"
  by (simp add: result_body_def field_def)

lemma elapsed_text_converts:
  "gmtime_raises srv \<lceil>q\<rceil> = None \<Longrightarrow> elapsed_text srv (Finite q) = Inr (hms_text \<lceil>q\<rceil>)"
  by (simp add: elapsed_text_def math_ceil_def)

lemma elapsed_text_raises:
  "elapsed_text srv NaN = Inl ValueError"
  "elapsed_text srv PosInf = Inl OverflowError"
  "elapsed_text srv NegInf = Inl OverflowError"
  "gmtime_raises srv \<lceil>q\<rceil> = Some e \<Longrightarrow> elapsed_text srv (Finite q) = Inl e"
  by (simp_all add: elapsed_text_def math_ceil_def)

text \<open>
  Claim C4. \<open>result_map\<close> maps \<open>passed\<close> to 1 and \<open>failed\<close> to 5, and
  \<open>.get(outcome, 5)\<close> yields 5 for every other outcome. When the case id resolves to the
  test id \<open>T\<close>, every POST that \<open>update_test_result\<close> issues has a body with one result
  whose \<open>test_id\<close> is \<open>T\<close> and whose \<open>status_id\<close> is the value of the map at the
  report's outcome, which is 1 or 5. For \<open>T\<close> other than zero (which Python takes for
  false) and a duration that converts to the text \<open>shown\<close>, the call issues, after the
  requests of the lookup, exactly one POST, to \<open>add_results/<run id>\<close>, with \<open>T\<close>, that
  status, \<open>shown\<close> and the report's text; when the conversion of the duration raises, the
  call raises the same and issues no POST; for \<open>T\<close> zero it returns \<open>False\<close> without a
  POST.
\<close>

theorem update_test_result_post_body:
  assumes "fst (check_case_in_run srv rid case_id c) = Inr (Ident (Some T))"
  shows "result_map ''passed'' = Some 1 \<and> result_map ''failed'' = Some 5
         \<and> status_id ''passed'' = 1 \<and> status_id ''failed'' = 5 \<and> status_id ''skipped'' = 5
         \<and> (\<forall>outc. outc \<noteq> ''passed'' \<longrightarrow> status_id outc = 5)
         \<and> (\<forall>r \<in> set (issued c (snd (update_test_result srv rid case_id rep c))).
               req_method r = ''POST'' \<longrightarrow>
               (\<exists>res. req_data r = Some (JObj [(''results'', JList [res])])
                      \<and> field ''test_id'' res = Some (JInt T)
                      \<and> field ''status_id'' res = Some (JInt (status_id (outcome rep)))
                      \<and> (field ''status_id'' res = Some (JInt 1)
                          \<or> field ''status_id'' res = Some (JInt 5))))
         \<and> (T \<noteq> 0 \<and> elapsed_text srv (duration rep) = Inr shown \<longrightarrow>
               issued c (snd (update_test_result srv rid case_id rep c)) =
                 issued c (snd (check_case_in_run srv rid case_id c)) @
                 [post_request c (''add_results/'' @ str_run_id rid)
                    (JObj [(''results'',
                       JList [JObj [(''test_id'', JInt T),
                                    (''status_id'',
                                     JInt (if outcome rep = ''passed'' then 1 else 5)),
                                    (''elapsed'', JStr shown),
                                    (''comment'', JStr (longreprtext rep))]])])])
         \<and> (T \<noteq> 0 \<and> elapsed_text srv (duration rep) = Inl e \<longrightarrow>
               fst (update_test_result srv rid case_id rep c) = Inl e
               \<and> issued c (snd (update_test_result srv rid case_id rep c)) =
                   issued c (snd (check_case_in_run srv rid case_id c)))
         \<and> (T = 0 \<longrightarrow>
               fst (update_test_result srv rid case_id rep c) = Inr (JBool False)
               \<and> issued c (snd (update_test_result srv rid case_id rep c)) =
                   issued c (snd (check_case_in_run srv rid case_id c)))"
proof -
  define gs where "gs = issued c (snd (check_case_in_run srv rid case_id c))"
  define c1 where "c1 = c\<lparr>sent := sent c @ gs\<rparr>"
  have gets: "\<forall>r \<in> set gs. req_method r = ''GET''"
    and c1: "snd (check_case_in_run srv rid case_id c) = c1"
    using check_case_in_run_issued [of srv rid case_id c] by (simp_all add: gs_def c1_def)
  have run: "check_case_in_run srv rid case_id c = (Inr (Ident (Some T)), c1)"
    using assms c1 by (metis prod.collapse)
  have noposts: "\<forall>r \<in> set gs. req_method r \<noteq> ''POST''"
    using gets by auto
  have maps: "result_map ''passed'' = Some 1 \<and> result_map ''failed'' = Some 5
         \<and> status_id ''passed'' = 1 \<and> status_id ''failed'' = 5 \<and> status_id ''skipped'' = 5
         \<and> (\<forall>outc. outc \<noteq> ''passed'' \<longrightarrow> status_id outc = 5)"
    by (simp add: status_id_cases result_map_def)
  let ?U = "update_test_result srv rid case_id rep c"
  show ?thesis
  proof (cases "T = 0")
    case True
    then have "?U = (Inr (JBool False), c1)"
      by (simp add: update_test_result_def and_then_def run returns_def)
    then have "fst ?U = Inr (JBool False)" and "issued c (snd ?U) = gs"
      by (simp_all add: c1_def)
    with noposts maps True show ?thesis
      by (auto simp: gs_def)
  next
    case False
    show ?thesis
    proof (cases "elapsed_text srv (duration rep)")
      case (Inl x)
      then have "?U = (Inl x, c1)"
        using False
        by (simp add: update_test_result_def and_then_def run lift_def result_data_def)
      then have "fst ?U = Inl x" and "issued c (snd ?U) = gs"
        by (simp_all add: c1_def)
      with noposts maps False Inl show ?thesis
        by (auto simp: gs_def)
    next
      case (Inr t)
      let ?body = "result_body (Ident (Some T)) (status_id (outcome rep)) t (longreprtext rep)"
      let ?p = "post_request c (''add_results/'' @ str_run_id rid) ?body"
      have "snd ?U = c1\<lparr>sent := sent c1 @ [?p]\<rparr>"
        using False Inr
        by (simp add: update_test_result_def and_then_def run lift_def result_data_def
            send_post_state)
           (simp add: post_request_def c1_def)
      then have iss: "issued c (snd ?U) = gs @ [?p]"
        by (simp add: c1_def issued_def)
      obtain res where res: "?body = JObj [(''results'', JList [res])]"
        "field ''test_id'' res = Some (JInt T)"
        "field ''status_id'' res = Some (JInt (status_id (outcome rep)))"
        using result_body_fields by blast
      have st: "status_id (outcome rep) = 1 \<or> status_id (outcome rep) = 5"
        by (simp add: status_id_cases)
      have posted: "\<exists>res. req_data ?p = Some (JObj [(''results'', JList [res])])
                      \<and> field ''test_id'' res = Some (JInt T)
                      \<and> field ''status_id'' res = Some (JInt (status_id (outcome rep)))
                      \<and> (field ''status_id'' res = Some (JInt 1)
                          \<or> field ''status_id'' res = Some (JInt 5))"
        using res st by (auto simp: post_request_def)
      have explicit: "?body =
          JObj [(''results'',
             JList [JObj [(''test_id'', JInt T),
                          (''status_id'', JInt (if outcome rep = ''passed'' then 1 else 5)),
                          (''elapsed'', JStr t),
                          (''comment'', JStr (longreprtext rep))]])]"
        by (simp add: result_body_def status_id_cases)
      have all: "\<forall>r \<in> set (issued c (snd ?U)). req_method r = ''POST'' \<longrightarrow>
               (\<exists>res. req_data r = Some (JObj [(''results'', JList [res])])
                      \<and> field ''test_id'' res = Some (JInt T)
                      \<and> field ''status_id'' res = Some (JInt (status_id (outcome rep)))
                      \<and> (field ''status_id'' res = Some (JInt 1)
                          \<or> field ''status_id'' res = Some (JInt 5)))"
        using iss noposts posted by auto
      have one: "issued c (snd ?U) =
                 issued c (snd (check_case_in_run srv rid case_id c)) @
                 [post_request c (''add_results/'' @ str_run_id rid)
                    (JObj [(''results'',
                       JList [JObj [(''test_id'', JInt T),
                                    (''status_id'',
                                     JInt (if outcome rep = ''passed'' then 1 else 5)),
                                    (''elapsed'', JStr t),
                                    (''comment'', JStr (longreprtext rep))]])])]"
        using iss explicit by (simp add: gs_def)
      from maps all one False Inr show ?thesis
        by simp
    qed
  qed
qed

text \<open>
  The statement above at the sample service and session: a report of a second and a
  half, and one whose duration the sample host does not convert.
\<close>

theorem update_test_result_post_body_witness:
  "fst (check_case_in_run sample_server (Some 7) 11 sample_client) = Inr (Ident (Some 100))
   \<and> (100::int) \<noteq> 0
   \<and> elapsed_text sample_server (duration sample_report) = Inr ''00h 00m 02s''
   \<and> issued sample_client
        (snd (update_test_result sample_server (Some 7) 11 sample_report sample_client))
      = [get_request sample_client ''get_tests/7'',
         post_request sample_client ''add_results/7''
           (JObj [(''results'',
              JList [JObj [(''test_id'', JInt 100), (''status_id'', JInt 5),
                           (''elapsed'', JStr ''00h 00m 02s''), (''comment'', JStr ''none'')]])])]
   \<and> elapsed_text sample_server (duration long_report) = Inl OSError
   \<and> fst (update_test_result sample_server (Some 7) 11 long_report sample_client) = Inl OSError
   \<and> issued sample_client
        (snd (update_test_result sample_server (Some 7) 11 long_report sample_client))
      = [get_request sample_client ''get_tests/7'']"
proof -
  have a: "cases_in_run sample_client (Some 7) = None"
    by (simp add: sample_client_def)
  have t: "get_tests_reply sample_server (Some 7) = Inr sample_tests"
    by (simp add: sample_server_def)
  have s: "str_run_id (Some 7) = ''7''"
    by (simp add: str_run_id_def str_int_def str_nat.simps)
  have r: "fst (check_case_in_run sample_server (Some 7) 11 sample_client) = Inr (Ident (Some 100))"
    by (simp add: check_case_in_run_fetched [OF a t] sample_tests_def)
  have g: "issued sample_client (snd (check_case_in_run sample_server (Some 7) 11 sample_client))
             = [get_request sample_client ''get_tests/7'']"
    by (simp add: check_case_in_run_fetched [OF a t] s)
  have e: "elapsed_text sample_server (duration sample_report) = Inr ''00h 00m 02s''"
    by code_simp
  have l: "elapsed_text sample_server (duration long_report) = Inl OSError"
    by code_simp
  have o: "outcome sample_report = ''skipped''" "longreprtext sample_report = ''none''"
    by (simp_all add: sample_report_def)
  have 1: "issued sample_client
        (snd (update_test_result sample_server (Some 7) 11 sample_report sample_client))
      = [get_request sample_client ''get_tests/7'',
         post_request sample_client ''add_results/7''
           (JObj [(''results'',
              JList [JObj [(''test_id'', JInt 100), (''status_id'', JInt 5),
                           (''elapsed'', JStr ''00h 00m 02s''), (''comment'', JStr ''none'')]])])]"
    using update_test_result_post_body
            [OF r, where rep = sample_report and shown = "''00h 00m 02s''"] e g s o
    by simp
  have 2: "fst (update_test_result sample_server (Some 7) 11 long_report sample_client) = Inl OSError
    \<and> issued sample_client
        (snd (update_test_result sample_server (Some 7) 11 long_report sample_client))
      = [get_request sample_client ''get_tests/7'']"
    using update_test_result_post_body [OF r, where rep = long_report and e = OSError] l g
    by simp
  from r e l 1 2 show ?thesis
    by simp
qed

subsection \<open>Finding a run in a plan\<close>

lemma str_contains_iff: "str_contains sub s \<longleftrightarrow> (\<exists>a b. s = a @ sub @ b)"
  by (simp add: str_contains_sublist sublist_def)

lemma scan_runs_find:
  "\<forall>e \<in> set es. entry_runs e \<noteq> [] \<Longrightarrow>
   scan_runs rname es =
     Inr (map_option (\<lambda>e. run_ident (hd (entry_runs e)))
            (find (\<lambda>e. str_contains rname (run_name (hd (entry_runs e)))) es))"
  by (induction es) (auto split: list.splits)

lemma get_plan_ok:
  "get_plan_reply srv plan_id = Inr detail \<Longrightarrow>
   get_plan srv plan_id c =
     (Inr detail, c\<lparr>sent := sent c @ [get_request c (''get_plan/'' @ str_int plan_id)]\<rparr>)"
  by (simp add: get_plan_def send_get_Inr get_request_def)

lemma get_plan_by_name_None_ok:
  assumes "project_id c = Inr pid" and "get_plans_reply srv pid = Inr plans"
  shows "get_plan_by_name srv n None c =
     (Inr (first_named n plans),
      c\<lparr>sent := sent c @ [get_request c (''get_plans/'' @ str_int pid)]\<rparr>)"
  using get_plan_by_name_ok [of None c pid srv plans n] assms
  by (simp add: default_project_id_None get_request_def)

lemma get_run_id_ok:
  assumes "project_id c = Inr pid" and "get_plans_reply srv pid = Inr plans"
    and "first_named plan_name plans = Some p"
    and "get_plan_reply srv (ent_id p) = Inr detail"
  shows "get_run_id srv plan_name rname c =
     (scan_runs rname (plan_entries detail),
      c\<lparr>sent := sent c @ [get_request c (''get_plans/'' @ str_int pid),
                           get_request c (''get_plan/'' @ str_int (ent_id p))]\<rparr>)"
  using assms
  by (simp add: get_run_id_def and_then_def get_plan_by_name_None_ok get_plan_ok lift_def
      get_request_def)

text \<open>
  Claim C8. When the plan resolves by name (the first listed plan with an equal name) and
  every entry of the plan has a run, \<open>get_run_id\<close> returns the id of the first run of the
  first entry, in the order of the plan, whose first run's name contains the given name
  as a contiguous substring, and \<open>None\<close> when no entry's first run has such a name.
\<close>

theorem get_run_id_first_match:
  assumes "project_id c = Inr pid" and "get_plans_reply srv pid = Inr plans"
    and "find (\<lambda>p. ent_name p = plan_name) plans = Some p"
    and "get_plan_reply srv (ent_id p) = Inr detail"
    and "\<forall>e \<in> set (plan_entries detail). entry_runs e \<noteq> []"
  shows "fst (get_run_id srv plan_name rname c) =
           Inr (map_option (\<lambda>e. run_ident (hd (entry_runs e)))
                  (find (\<lambda>e. str_contains rname (run_name (hd (entry_runs e))))
                     (plan_entries detail)))
         \<and> ((\<forall>e \<in> set (plan_entries detail).
                \<not> str_contains rname (run_name (hd (entry_runs e)))) \<longrightarrow>
              fst (get_run_id srv plan_name rname c) = Inr None)
         \<and> (\<forall>s. str_contains rname s \<longleftrightarrow> (\<exists>a b. s = a @ rname @ b))"
proof -
  have "first_named plan_name plans = Some p"
    using assms(3) by (simp add: first_named_find)
  then have "fst (get_run_id srv plan_name rname c) = scan_runs rname (plan_entries detail)"
    using assms(1,2,4) by (simp add: get_run_id_ok)
  then show ?thesis
    using assms(5) by (simp add: scan_runs_find find_absent str_contains_iff)
qed

text \<open>The statement above at the sample service and session.\<close>

theorem get_run_id_first_match_witness:
  "project_id sample_client = Inr 1
   \<and> get_plans_reply sample_server 1 = Inr [\<lparr>ent_name = ''Nightly'', ent_id = 3\<rparr>]
   \<and> find (\<lambda>p. ent_name p = ''Nightly'') [\<lparr>ent_name = ''Nightly'', ent_id = 3\<rparr>]
       = Some \<lparr>ent_name = ''Nightly'', ent_id = 3\<rparr>
   \<and> get_plan_reply sample_server 3 = Inr sample_detail
   \<and> map entry_runs (plan_entries sample_detail) = [[sample_run], [sample_run2]]
   \<and> fst (get_run_id sample_server ''Nightly'' ''smoke'' sample_client) = Inr (Some 7)
   \<and> fst (get_run_id sample_server ''Nightly'' ''smoke test'' sample_client) = Inr None"
proof -
  have a: "project_id sample_client = Inr 1"
    by (simp add: project_id_def sample_client_def)
  have b: "get_plans_reply sample_server 1 = Inr [\<lparr>ent_name = ''Nightly'', ent_id = 3\<rparr>]"
    by (simp add: sample_server_def)
  have f: "find (\<lambda>p. ent_name p = ''Nightly'') [\<lparr>ent_name = ''Nightly'', ent_id = 3\<rparr>]
       = Some \<lparr>ent_name = ''Nightly'', ent_id = 3\<rparr>"
    by simp
  have d: "get_plan_reply sample_server (ent_id \<lparr>ent_name = ''Nightly'', ent_id = 3\<rparr>)
             = Inr sample_detail"
    by (simp add: sample_server_def)
  have r: "\<forall>e \<in> set (plan_entries sample_detail). entry_runs e \<noteq> []"
    by (simp add: sample_detail_def)
  have 1: "fst (get_run_id sample_server ''Nightly'' ''smoke'' sample_client) = Inr (Some 7)"
    using get_run_id_first_match [OF a b f d r, of "''smoke''", THEN conjunct1]
    by (simp add: sample_detail_def sample_run_def sample_run2_def)
  have 2: "fst (get_run_id sample_server ''Nightly'' ''smoke test'' sample_client) = Inr None"
    using get_run_id_first_match [OF a b f d r, of "''smoke test''", THEN conjunct1]
    by (simp add: sample_detail_def sample_run_def sample_run2_def)
  show ?thesis
    using a b d 1 2 by (simp add: sample_detail_def)
qed

subsection \<open>A new plan entry with an empty list of case ids\<close>

lemma add_default_falsy:
  "\<not> truthy_list case_ids \<Longrightarrow>
   add_default_test_run_entry_to_plan srv n plan_name case_ids =
     and_then (get_plan_by_name srv plan_name None) (\<lambda>plan.
       case plan of
         None \<Rightarrow> raise (APIError (plan_not_found_message plan_name))
       | Some p \<Rightarrow>
           and_then (\<lambda>c. (suite_id c, c)) (\<lambda>sid.
             add_plan_entry srv (ent_id p)
               (test_run_entry sid (format_testrun srv n) True case_ids)))"
  by (simp add: add_default_test_run_entry_to_plan_def)

lemma get_plan_by_name_first_request:
  assumes "project_id c = Inr pid"
  shows "\<exists>r. get_plan_by_name srv n None c =
           (r, c\<lparr>sent := sent c @ [get_request c (''get_plans/'' @ str_int pid)]\<rparr>)"
proof -
  have nz: "pid \<noteq> 0"
    using assms by (auto simp: project_id_def split: option.splits if_splits)
  show ?thesis
    using assms nz
    by (cases "get_plans_reply srv pid")
       (simp_all add: get_plan_by_name_def get_plans_def and_then_def default_project_id_None
          default_project_id_Some send_get_Inr send_get_Inl returns_def get_request_def)
qed

lemma get_plan_by_name_unresolved:
  "project_id c = Inl e \<Longrightarrow> get_plan_by_name srv n None c = (Inl e, c)"
  by (simp add: get_plan_by_name_def and_then_def default_project_id_None)

lemma test_run_entry_fields:
  "field ''include_all'' (test_run_entry sid nm ia cids) = Some (JBool ia)"
  "field ''case_ids'' (test_run_entry sid nm ia cids) = Some (json_of_case_ids cids)"
  by (simp_all add: field_def test_run_entry_def)

text \<open>
  Claim C1, as amended. With an empty list of case ids the operation does not stop at the
  guard: \<open>include_all\<close> is true and the plan is looked up. With the project id resolved the
  first request issued is the GET of \<open>get_plans\<close>; when the plan is found and the suite id
  is resolved, the entry is posted to \<open>add_plan_entry\<close> with \<open>include_all\<close> true and an
  empty \<open>case_ids\<close>, and the result is the answer to that POST. With the project id
  unresolved the operation raises the error of the \<open>project_id\<close> property, without a
  request.
\<close>

theorem add_default_empty_case_ids:
  "(project_id c = Inr pid \<longrightarrow>
      (\<exists>rest. issued c (snd (add_default_test_run_entry_to_plan srv n plan_name (Some []) c)) =
         get_request c (''get_plans/'' @ str_int pid) # rest))
   \<and> (project_id c = Inr pid \<and> get_plans_reply srv pid = Inr plans
        \<and> find (\<lambda>p. ent_name p = plan_name) plans = Some p \<and> suite_id c = Inr sid \<longrightarrow>
        issued c (snd (add_default_test_run_entry_to_plan srv n plan_name (Some []) c)) =
          [get_request c (''get_plans/'' @ str_int pid),
           post_request c (''add_plan_entry/'' @ str_int (ent_id p))
             (test_run_entry sid (format_testrun srv n) True (Some []))]
        \<and> field ''include_all'' (test_run_entry sid (format_testrun srv n) True (Some []))
            = Some (JBool True)
        \<and> field ''case_ids'' (test_run_entry sid (format_testrun srv n) True (Some []))
            = Some (JList [])
        \<and> fst (add_default_test_run_entry_to_plan srv n plan_name (Some []) c) =
            (case post_reply srv (''add_plan_entry/'' @ str_int (ent_id p))
                    (test_run_entry sid (format_testrun srv n) True (Some [])) of
               Inl h \<Rightarrow> Inl (APIError (api_error_message h))
             | Inr r \<Rightarrow> Inr r))
   \<and> (project_id c = Inl e \<longrightarrow>
        add_default_test_run_entry_to_plan srv n plan_name (Some []) c = (Inl e, c))"
proof -
  have first: "\<exists>rest. issued c (snd (add_default_test_run_entry_to_plan srv n plan_name (Some []) c)) =
         get_request c (''get_plans/'' @ str_int pid) # rest" if pid: "project_id c = Inr pid"
  proof -
    let ?g = "get_request c (''get_plans/'' @ str_int pid)"
    obtain r where r: "get_plan_by_name srv plan_name None c = (r, c\<lparr>sent := sent c @ [?g]\<rparr>)"
      using get_plan_by_name_first_request [OF pid] by blast
    show ?thesis
      by (auto simp: add_default_falsy truthy_list_def and_then_def r raise_def add_plan_entry_def
          send_post_def send_request_def Let_def issued_def
          split: sum.splits option.splits)
  qed
  have posted: "issued c (snd (add_default_test_run_entry_to_plan srv n plan_name (Some []) c)) =
          [get_request c (''get_plans/'' @ str_int pid),
           post_request c (''add_plan_entry/'' @ str_int (ent_id p))
             (test_run_entry sid (format_testrun srv n) True (Some []))]
        \<and> field ''include_all'' (test_run_entry sid (format_testrun srv n) True (Some []))
            = Some (JBool True)
        \<and> field ''case_ids'' (test_run_entry sid (format_testrun srv n) True (Some []))
            = Some (JList [])
        \<and> fst (add_default_test_run_entry_to_plan srv n plan_name (Some []) c) =
            (case post_reply srv (''add_plan_entry/'' @ str_int (ent_id p))
                    (test_run_entry sid (format_testrun srv n) True (Some [])) of
               Inl h \<Rightarrow> Inl (APIError (api_error_message h))
             | Inr r \<Rightarrow> Inr r)"
    if a: "project_id c = Inr pid \<and> get_plans_reply srv pid = Inr plans
        \<and> find (\<lambda>p. ent_name p = plan_name) plans = Some p \<and> suite_id c = Inr sid"
  proof -
    have plan: "get_plan_by_name srv plan_name None c =
       (Inr (Some p), c\<lparr>sent := sent c @ [get_request c (''get_plans/'' @ str_int pid)]\<rparr>)"
      using a get_plan_by_name_None_ok [of c pid srv plans plan_name]
      by (simp add: first_named_find)
    have sid: "suite_id c = Inr sid"
      using a by simp
    show ?thesis
      by (simp add: add_default_falsy truthy_list_def and_then_def plan sid add_plan_entry_def
          send_post_state send_post_result test_run_entry_fields json_of_case_ids_def)
         (simp add: issued_def post_request_def get_request_def)
  qed
  have unresolved: "add_default_test_run_entry_to_plan srv n plan_name (Some []) c = (Inl e, c)"
    if "project_id c = Inl e"
    using that
    by (simp add: add_default_falsy truthy_list_def and_then_def get_plan_by_name_unresolved)
  from first posted unresolved show ?thesis by blast
qed

text \<open>
  Claim C1 as stated (an empty list of case ids returns \<open>False\<close> and issues no request)
  fails at the sample service: the call returns the answer to its POST, after a GET and
  that POST.
\<close>

theorem add_default_empty_case_ids_counterexample:
  "fst (add_default_test_run_entry_to_plan sample_server ''smoke'' ''Nightly'' (Some [])
          sample_client) = Inr (JObj [])
   \<and> fst (add_default_test_run_entry_to_plan sample_server ''smoke'' ''Nightly'' (Some [])
          sample_client) \<noteq> Inr (JBool False)
   \<and> issued sample_client
        (snd (add_default_test_run_entry_to_plan sample_server ''smoke'' ''Nightly'' (Some [])
                sample_client)) =
       [get_request sample_client ''get_plans/1'',
        post_request sample_client ''add_plan_entry/3''
          (test_run_entry 2 ''2026-01-02 09:30 - smoke'' True (Some []))]"
  by code_simp

text \<open>The statement above at the sample service and session.\<close>

theorem add_default_empty_case_ids_witness:
  "project_id sample_client = Inr 1
   \<and> get_plans_reply sample_server 1 = Inr [\<lparr>ent_name = ''Nightly'', ent_id = 3\<rparr>]
   \<and> find (\<lambda>p. ent_name p = ''Nightly'') [\<lparr>ent_name = ''Nightly'', ent_id = 3\<rparr>]
       = Some \<lparr>ent_name = ''Nightly'', ent_id = 3\<rparr>
   \<and> suite_id sample_client = Inr 2
   \<and> issued sample_client
        (snd (add_default_test_run_entry_to_plan sample_server ''smoke'' ''Nightly'' (Some [])
                sample_client)) =
       [get_request sample_client ''get_plans/1'',
        post_request sample_client ''add_plan_entry/3''
          (test_run_entry 2 (format_testrun sample_server ''smoke'') True (Some []))]"
proof -
  have a: "project_id sample_client = Inr 1"
    by (simp add: project_id_def sample_client_def)
  have b: "get_plans_reply sample_server 1 = Inr [\<lparr>ent_name = ''Nightly'', ent_id = 3\<rparr>]"
    by (simp add: sample_server_def)
  have f: "find (\<lambda>p. ent_name p = ''Nightly'') [\<lparr>ent_name = ''Nightly'', ent_id = 3\<rparr>]
       = Some \<lparr>ent_name = ''Nightly'', ent_id = 3\<rparr>"
    by simp
  have s: "suite_id sample_client = Inr 2"
    by (simp add: suite_id_def sample_client_def)
  have n: "str_int 1 = ''1''" "str_int 3 = ''3''"
    by (simp_all add: str_int_def str_nat.simps)
  from add_default_empty_case_ids
         [where c = sample_client and pid = 1 and srv = sample_server
            and plans = "[\<lparr>ent_name = ''Nightly'', ent_id = 3\<rparr>]" and plan_name = "''Nightly''"
            and p = "\<lparr>ent_name = ''Nightly'', ent_id = 3\<rparr>" and sid = 2 and n = "''smoke''"]
       a b f s n
  show ?thesis by simp
qed

subsection \<open>The cache across calls of update_test_result\<close>

lemma update_test_result_cache:
  "cases_in_run (snd (update_test_result srv rid case_id rep c)) = cases_in_run c"
  by (simp add: update_test_result_def and_then_def check_case_in_run_def get_cases_in_run_def
      send_get_def send_post_def send_request_def returns_def lift_def Let_def
      split: option.splits sum.splits)

lemma update_test_result_url:
  "priv_url (snd (update_test_result srv rid case_id rep c)) = priv_url c"
  by (simp add: update_test_result_def and_then_def check_case_in_run_def get_cases_in_run_def
      send_get_def send_post_def send_request_def returns_def lift_def Let_def
      split: option.splits sum.splits)

lemma update_test_result_fetches:
  assumes "cases_in_run c rid = None"
  shows "\<exists>rest. issued c (snd (update_test_result srv rid case_id rep c)) =
           get_request c (''get_tests/'' @ str_run_id rid) # rest"
  using assms
  by (auto simp: update_test_result_def and_then_def check_case_in_run_def get_cases_in_run_def
      send_get_def send_post_def send_request_def returns_def lift_def Let_def issued_def
      get_request_def
      split: option.splits sum.splits)

text \<open>
  Claim C2, as amended. \<open>update_test_result\<close> leaves the cache as it was. When the run id
  is not a key of the cache, the first request of the call is the GET of the run's tests,
  and so is the first request of a second call with the same run id, whatever the service
  answers.
\<close>

theorem update_test_result_keeps_cache:
  "cases_in_run (snd (update_test_result srv rid case_id rep c)) = cases_in_run c
   \<and> (cases_in_run c rid = None \<longrightarrow>
        (\<exists>rest. issued c (snd (update_test_result srv rid case_id rep c)) =
           get_request c (''get_tests/'' @ str_run_id rid) # rest)
        \<and> (\<exists>rest. issued (snd (update_test_result srv rid case_id rep c))
                    (snd (update_test_result srv' rid case_id' rep'
                            (snd (update_test_result srv rid case_id rep c)))) =
           get_request c (''get_tests/'' @ str_run_id rid) # rest))"
proof -
  let ?c1 = "snd (update_test_result srv rid case_id rep c)"
  have cache: "cases_in_run ?c1 = cases_in_run c"
    by (rule update_test_result_cache)
  have url: "get_request ?c1 (''get_tests/'' @ str_run_id rid)
               = get_request c (''get_tests/'' @ str_run_id rid)"
    by (simp add: get_request_def update_test_result_url)
  show ?thesis
    using cache url update_test_result_fetches [of c rid srv case_id rep]
      update_test_result_fetches [of ?c1 rid srv' case_id' rep']
    by auto
qed

text \<open>
  Claim C2 as stated (the fetched list is stored under the run id, and a second call does
  not fetch) fails at the sample service: after the first call the run id is still not a
  key of the cache, and the second call issues the GET again.
\<close>

theorem update_test_result_keeps_cache_counterexample:
  "cases_in_run sample_client (Some 7) = None
   \<and> cases_in_run (snd (update_test_result sample_server (Some 7) 11 sample_report sample_client))
       (Some 7) = None
   \<and> issued (snd (update_test_result sample_server (Some 7) 11 sample_report sample_client))
       (snd (update_test_result sample_server (Some 7) 11 sample_report
          (snd (update_test_result sample_server (Some 7) 11 sample_report sample_client)))) =
     [get_request sample_client ''get_tests/7'',
      post_request sample_client ''add_results/7''
        (result_body (Ident (Some 100)) 5 ''00h 00m 02s'' ''none'')]"
  by code_simp

text \<open>The statement above at the sample service and session.\<close>

theorem update_test_result_keeps_cache_witness:
  "cases_in_run sample_client (Some 7) = None
   \<and> cases_in_run (snd (update_test_result sample_server (Some 7) 11 sample_report sample_client))
       = cases_in_run sample_client
   \<and> (\<exists>rest. issued (snd (update_test_result sample_server (Some 7) 11 sample_report sample_client))
       (snd (update_test_result sample_server (Some 7) 12 sample_report
          (snd (update_test_result sample_server (Some 7) 11 sample_report sample_client)))) =
        get_request sample_client ''get_tests/7'' # rest)"
proof -
  have a: "cases_in_run sample_client (Some 7) = None"
    by (simp add: sample_client_def)
  have s: "str_run_id (Some 7) = ''7''"
    by (simp add: str_run_id_def str_int_def str_nat.simps)
  from update_test_result_keeps_cache
         [of sample_server "Some 7" 11 sample_report sample_client sample_server 12 sample_report]
       a s
  show ?thesis by simp
qed

subsection \<open>Updating a run\<close>

lemma find_entry_id_absent:
  "\<forall>e \<in> set es. \<not> str_contains rname (entry_name e) \<Longrightarrow> find_entry_id rname es = Inr None"
  by (induction es) auto

lemma find_entry_id_found:
  "find (\<lambda>e. str_contains rname (entry_name e)) es = Some e \<Longrightarrow> entry_runs e = r # rs \<Longrightarrow>
   find_entry_id rname es = Inr (Some (run_entry_id r))"
  by (induction es) (auto split: if_splits)

lemma set_difference_empty: "set_difference xs ys = [] \<longleftrightarrow> set xs \<subseteq> set ys"
  by (auto simp: set_difference_def filter_empty_conv)

lemma update_test_run_lookup:
  assumes "project_id c = Inr pid" and "get_plans_reply srv pid = Inr plans"
    and "first_named plan_name plans = Some p"
    and "get_plan_reply srv (ent_id p) = Inr detail"
    and "scan_runs rname (plan_entries detail) = Inr rid"
  shows "update_test_run srv rname plan_name case_ids c =
     and_then (lift (find_entry_id rname (plan_entries detail))) (\<lambda>found.
       case found of
         None \<Rightarrow> returns (JBool False)
       | Some entry_id \<Rightarrow>
           and_then (check_test_id_duplicate srv case_ids rid) (\<lambda>new_ids.
             if new_ids = [] then returns (JBool False)
             else
               and_then (get_cases_in_run srv rid) (\<lambda>existing_tests.
               and_then (lift (append_case_ids new_ids existing_tests)) (\<lambda>merged.
                 send_post srv
                   (''update_plan_entry/'' @ str_int (ent_id p) @ ''/'' @ entry_id)
                   (update_entry_body merged)))))
       (c\<lparr>sent := sent c @ [get_request c (''get_plans/'' @ str_int pid),
                            get_request c (''get_plan/'' @ str_int (ent_id p)),
                            get_request c (''get_plans/'' @ str_int pid),
                            get_request c (''get_plan/'' @ str_int (ent_id p))]\<rparr>)"
proof -
  let ?g1 = "get_request c (''get_plans/'' @ str_int pid)"
  let ?g2 = "get_request c (''get_plan/'' @ str_int (ent_id p))"
  let ?c2 = "c\<lparr>sent := sent c @ [?g1, ?g2]\<rparr>"
  have 1: "get_run_id srv plan_name rname c = (Inr rid, ?c2)"
    using assms by (simp add: get_run_id_ok)
  have 2: "get_plan_by_name srv plan_name None ?c2 =
             (Inr (Some p), c\<lparr>sent := sent c @ [?g1, ?g2, ?g1]\<rparr>)"
    using get_plan_by_name_None_ok [of ?c2 pid srv plans plan_name] assms(1-3)
    by (simp add: get_request_def)
  have 3: "get_plan srv (ent_id p) (c\<lparr>sent := sent c @ [?g1, ?g2, ?g1]\<rparr>) =
             (Inr detail, c\<lparr>sent := sent c @ [?g1, ?g2, ?g1, ?g2]\<rparr>)"
    using get_plan_ok [OF assms(4), of "c\<lparr>sent := sent c @ [?g1, ?g2, ?g1]\<rparr>"]
    by (simp add: get_request_def)
  show ?thesis
    by (simp only: update_test_run_def option.case
        and_then_Inr [where m = "get_run_id srv plan_name rname", OF 1]
        and_then_Inr [where m = "get_plan_by_name srv plan_name None", OF 2]
        and_then_Inr [where m = "get_plan srv (ent_id p)", OF 3])
qed


lemma update_entry_body_fields:
  "field ''include_all'' (update_entry_body ids) = Some (JBool False)"
  "field ''case_ids'' (update_entry_body ids) = Some (JList (map JInt ids))"
  by (simp_all add: field_def update_entry_body_def)

text \<open>
  Claim C7, as amended. Let the plan resolve by name and \<open>get_run_id\<close> return the run id
  \<open>rid\<close>. When no entry's name contains the run name, \<open>update_test_run\<close> returns \<open>False\<close>
  after the four GETs of the two lookups. Otherwise, with \<open>E\<close> the case ids of the tests of
  run \<open>rid\<close>: when every incoming id is in \<open>E\<close> it returns \<open>False\<close> after the one GET of the
  tests, without a POST; else it posts, to the first matching entry, a body with
  \<open>include_all\<close> false and case ids whose set is the incoming ids not in \<open>E\<close>, together
  with \<open>E\<close>.
\<close>

theorem update_test_run_merges:
  assumes "project_id c = Inr pid" and "get_plans_reply srv pid = Inr plans"
    and "find (\<lambda>p. ent_name p = plan_name) plans = Some p"
    and "get_plan_reply srv (ent_id p) = Inr detail"
    and "scan_runs rname (plan_entries detail) = Inr rid"
  shows
    "((\<forall>e \<in> set (plan_entries detail). \<not> str_contains rname (entry_name e)) \<longrightarrow>
        fst (update_test_run srv rname plan_name (Some candidates) c) = Inr (JBool False)
        \<and> issued c (snd (update_test_run srv rname plan_name (Some candidates) c)) =
            [get_request c (''get_plans/'' @ str_int pid),
             get_request c (''get_plan/'' @ str_int (ent_id p)),
             get_request c (''get_plans/'' @ str_int pid),
             get_request c (''get_plan/'' @ str_int (ent_id p))])
     \<and> (find (\<lambda>e. str_contains rname (entry_name e)) (plan_entries detail) = Some e
          \<and> entry_runs e = r # rs
          \<and> get_tests_reply srv rid = Inr tests \<and> map test_case_id tests = map Some E \<longrightarrow>
          (set candidates \<subseteq> set E \<longrightarrow>
             fst (update_test_run srv rname plan_name (Some candidates) c) = Inr (JBool False)
             \<and> issued c (snd (update_test_run srv rname plan_name (Some candidates) c)) =
                 [get_request c (''get_plans/'' @ str_int pid),
                  get_request c (''get_plan/'' @ str_int (ent_id p)),
                  get_request c (''get_plans/'' @ str_int pid),
                  get_request c (''get_plan/'' @ str_int (ent_id p)),
                  get_request c (''get_tests/'' @ str_run_id rid)])
          \<and> (\<not> set candidates \<subseteq> set E \<longrightarrow>
             (\<exists>ids. issued c (snd (update_test_run srv rname plan_name (Some candidates) c)) =
                 [get_request c (''get_plans/'' @ str_int pid),
                  get_request c (''get_plan/'' @ str_int (ent_id p)),
                  get_request c (''get_plans/'' @ str_int pid),
                  get_request c (''get_plan/'' @ str_int (ent_id p)),
                  get_request c (''get_tests/'' @ str_run_id rid),
                  get_request c (''get_tests/'' @ str_run_id rid),
                  post_request c
                    (''update_plan_entry/'' @ str_int (ent_id p) @ ''/'' @ run_entry_id r)
                    (update_entry_body ids)]
               \<and> set ids = (set candidates - set E) \<union> set E
               \<and> field ''include_all'' (update_entry_body ids) = Some (JBool False)
               \<and> field ''case_ids'' (update_entry_body ids) = Some (JList (map JInt ids)))))"
proof -
  let ?R = "update_test_run srv rname plan_name (Some candidates) c"
  let ?g1 = "get_request c (''get_plans/'' @ str_int pid)"
  let ?g2 = "get_request c (''get_plan/'' @ str_int (ent_id p))"
  let ?gt = "get_request c (''get_tests/'' @ str_run_id rid)"
  let ?c4 = "c\<lparr>sent := sent c @ [?g1, ?g2, ?g1, ?g2]\<rparr>"
  have plan: "first_named plan_name plans = Some p"
    using assms(3) by (simp add: first_named_find)
  note lookup = update_test_run_lookup [OF assms(1,2) plan assms(4,5), of "Some candidates"]
  have none: "fst ?R = Inr (JBool False) \<and> issued c (snd ?R) = [?g1, ?g2, ?g1, ?g2]"
    if "\<forall>e \<in> set (plan_entries detail). \<not> str_contains rname (entry_name e)"
    using find_entry_id_absent [OF that]
    by (simp add: lookup and_then_def lift_def returns_def)
  have some: "(set candidates \<subseteq> set E \<longrightarrow>
                 fst ?R = Inr (JBool False) \<and> issued c (snd ?R) = [?g1, ?g2, ?g1, ?g2, ?gt])
          \<and> (\<not> set candidates \<subseteq> set E \<longrightarrow>
               (\<exists>ids. issued c (snd ?R) =
                   [?g1, ?g2, ?g1, ?g2, ?gt, ?gt,
                    post_request c
                      (''update_plan_entry/'' @ str_int (ent_id p) @ ''/'' @ run_entry_id r)
                      (update_entry_body ids)]
                 \<and> set ids = (set candidates - set E) \<union> set E
                 \<and> field ''include_all'' (update_entry_body ids) = Some (JBool False)
                 \<and> field ''case_ids'' (update_entry_body ids) = Some (JList (map JInt ids))))"
    if h: "find (\<lambda>e. str_contains rname (entry_name e)) (plan_entries detail) = Some e
          \<and> entry_runs e = r # rs
          \<and> get_tests_reply srv rid = Inr tests \<and> map test_case_id tests = map Some E"
  proof -
    have fe: "find_entry_id rname (plan_entries detail) = Inr (Some (run_entry_id r))"
      using h by (simp add: find_entry_id_found)
    have tests: "get_tests_reply srv rid = Inr tests" and ids: "map test_case_id tests = map Some E"
      using h by simp_all
    let ?c5 = "c\<lparr>sent := sent c @ [?g1, ?g2, ?g1, ?g2, ?gt]\<rparr>"
    have dup: "check_test_id_duplicate srv (Some candidates) rid ?c4 =
                 (Inr (set_difference candidates E), ?c5)"
      using check_test_id_duplicate_ok [OF tests ids, of candidates ?c4]
      by (simp add: get_request_def)
    have R: "?R = (if set_difference candidates E = [] then (Inr (JBool False), ?c5)
                   else and_then (get_cases_in_run srv rid) (\<lambda>existing_tests.
                        and_then (lift (append_case_ids (set_difference candidates E) existing_tests))
                          (\<lambda>merged. send_post srv
                             (''update_plan_entry/'' @ str_int (ent_id p) @ ''/'' @ run_entry_id r)
                             (update_entry_body merged))) ?c5)"
      using dup by (simp add: lookup and_then_def lift_def fe returns_def)
    let ?c6 = "c\<lparr>sent := sent c @ [?g1, ?g2, ?g1, ?g2, ?gt, ?gt]\<rparr>"
    have fetch: "get_cases_in_run srv rid ?c5 = (Inr tests, ?c6)"
      using get_cases_in_run_ok [OF tests, of ?c5] by (simp add: get_request_def)
    have merged: "append_case_ids (set_difference candidates E) tests
                    = Inr (set_difference candidates E @ E)"
      using ids by (rule append_case_ids_all)
    show ?thesis
    proof (intro conjI impI)
      assume "set candidates \<subseteq> set E"
      then have "set_difference candidates E = []"
        by (simp add: set_difference_empty)
      then show "fst ?R = Inr (JBool False)" and "issued c (snd ?R) = [?g1, ?g2, ?g1, ?g2, ?gt]"
        by (simp_all add: R)
    next
      assume "\<not> set candidates \<subseteq> set E"
      then have ne: "set_difference candidates E \<noteq> []"
        by (simp add: set_difference_empty)
      have "snd ?R = ?c6\<lparr>sent := sent ?c6 @
              [post_request ?c6
                 (''update_plan_entry/'' @ str_int (ent_id p) @ ''/'' @ run_entry_id r)
                 (update_entry_body (set_difference candidates E @ E))]\<rparr>"
        using ne fetch by (simp add: R and_then_def lift_def merged send_post_state)
      then have "issued c (snd ?R) =
                   [?g1, ?g2, ?g1, ?g2, ?gt, ?gt,
                    post_request c
                      (''update_plan_entry/'' @ str_int (ent_id p) @ ''/'' @ run_entry_id r)
                      (update_entry_body (set_difference candidates E @ E))]"
        by (simp add: issued_def post_request_def)
      then show "\<exists>ids. issued c (snd ?R) =
                   [?g1, ?g2, ?g1, ?g2, ?gt, ?gt,
                    post_request c
                      (''update_plan_entry/'' @ str_int (ent_id p) @ ''/'' @ run_entry_id r)
                      (update_entry_body ids)]
                 \<and> set ids = (set candidates - set E) \<union> set E
                 \<and> field ''include_all'' (update_entry_body ids) = Some (JBool False)
                 \<and> field ''case_ids'' (update_entry_body ids) = Some (JList (map JInt ids))"
        by (intro exI [of _ "set_difference candidates E @ E"])
           (simp add: set_set_difference update_entry_body_fields)
    qed
  qed
  from none some show ?thesis by blast
qed

text \<open>
  Claim C7 as stated (a matching entry leads to the POST of the merged ids) fails at the
  sample service when the incoming ids 11 and 12 are all in the run: the first entry
  matches, the call returns \<open>False\<close>, and the five requests issued are GETs.
\<close>

theorem update_test_run_merges_counterexample:
  "find_entry_id ''smoke'' (plan_entries sample_detail) = Inr (Some ''e1'')
   \<and> fst (update_test_run sample_server ''smoke'' ''Nightly'' (Some [11, 12]) sample_client)
       = Inr (JBool False)
   \<and> issued sample_client
        (snd (update_test_run sample_server ''smoke'' ''Nightly'' (Some [11, 12]) sample_client))
       = [get_request sample_client ''get_plans/1'', get_request sample_client ''get_plan/3'',
          get_request sample_client ''get_plans/1'', get_request sample_client ''get_plan/3'',
          get_request sample_client ''get_tests/7'']"
  by code_simp

text \<open>The statement above at the sample service and session.\<close>

theorem update_test_run_merges_witness:
  "project_id sample_client = Inr 1
   \<and> get_plans_reply sample_server 1 = Inr [\<lparr>ent_name = ''Nightly'', ent_id = 3\<rparr>]
   \<and> find (\<lambda>p. ent_name p = ''Nightly'') [\<lparr>ent_name = ''Nightly'', ent_id = 3\<rparr>]
       = Some \<lparr>ent_name = ''Nightly'', ent_id = 3\<rparr>
   \<and> get_plan_reply sample_server 3 = Inr sample_detail
   \<and> scan_runs ''smoke'' (plan_entries sample_detail) = Inr (Some 7)
   \<and> find (\<lambda>e. str_contains ''smoke'' (entry_name e)) (plan_entries sample_detail)
       = Some \<lparr>entry_name = ''2026-01-01 10:00 - smoke'', entry_runs = [sample_run]\<rparr>
   \<and> get_tests_reply sample_server (Some 7) = Inr sample_tests
   \<and> map test_case_id sample_tests = map Some [11, 12]
   \<and> \<not> set [13, 11, 13] \<subseteq> set [11, 12 :: int]
   \<and> (\<exists>ids. issued sample_client
          (snd (update_test_run sample_server ''smoke'' ''Nightly'' (Some [13, 11, 13])
                  sample_client))
         = [get_request sample_client ''get_plans/1'', get_request sample_client ''get_plan/3'',
            get_request sample_client ''get_plans/1'', get_request sample_client ''get_plan/3'',
            get_request sample_client ''get_tests/7'', get_request sample_client ''get_tests/7'',
            post_request sample_client ''update_plan_entry/3/e1'' (update_entry_body ids)]
        \<and> set ids = set [13, 11, 13] - set [11, 12] \<union> set [11, 12])"
proof -
  have a: "project_id sample_client = Inr 1"
    by (simp add: project_id_def sample_client_def)
  have b: "get_plans_reply sample_server 1 = Inr [\<lparr>ent_name = ''Nightly'', ent_id = 3\<rparr>]"
    by (simp add: sample_server_def)
  have f: "find (\<lambda>p. ent_name p = ''Nightly'') [\<lparr>ent_name = ''Nightly'', ent_id = 3\<rparr>]
       = Some \<lparr>ent_name = ''Nightly'', ent_id = 3\<rparr>"
    by simp
  have d: "get_plan_reply sample_server (ent_id \<lparr>ent_name = ''Nightly'', ent_id = 3\<rparr>)
             = Inr sample_detail"
    by (simp add: sample_server_def)
  have s: "scan_runs ''smoke'' (plan_entries sample_detail) = Inr (Some 7)"
    by (simp add: sample_detail_def sample_run_def)
  have e: "find (\<lambda>e. str_contains ''smoke'' (entry_name e)) (plan_entries sample_detail)
       = Some \<lparr>entry_name = ''2026-01-01 10:00 - smoke'', entry_runs = [sample_run]\<rparr>"
    by (simp add: sample_detail_def)
  have t: "get_tests_reply sample_server (Some 7) = Inr sample_tests"
    by (simp add: sample_server_def)
  have m: "map test_case_id sample_tests = map Some [11, 12]"
    by (simp add: sample_tests_def)
  have n: "\<not> set [13, 11, 13] \<subseteq> set [11, 12 :: int]"
    by simp
  have u: "str_int 1 = ''1''" "str_int 3 = ''3''" "str_run_id (Some 7) = ''7''"
    by (simp_all add: str_run_id_def str_int_def str_nat.simps)
  from update_test_run_merges [OF a b f d s, where candidates = "[13, 11, 13]"
         and e = "\<lparr>entry_name = ''2026-01-01 10:00 - smoke'', entry_runs = [sample_run]\<rparr>"
         and r = sample_run and rs = "[]" and tests = sample_tests and E = "[11, 12]",
         THEN conjunct2]
       e t m n
  have "\<exists>ids. issued sample_client
          (snd (update_test_run sample_server ''smoke'' ''Nightly'' (Some [13, 11, 13])
                  sample_client))
         = [get_request sample_client ''get_plans/1'', get_request sample_client ''get_plan/3'',
            get_request sample_client ''get_plans/1'', get_request sample_client ''get_plan/3'',
            get_request sample_client ''get_tests/7'', get_request sample_client ''get_tests/7'',
            post_request sample_client ''update_plan_entry/3/e1'' (update_entry_body ids)]
        \<and> set ids = set [13, 11, 13] - set [11, 12] \<union> set [11, 12]"
    by (simp add: u sample_run_def) blast
  with a b f d s e t m n show ?thesis
    by simp
qed

subsection \<open>The setters and the id attributes\<close>

lemma fresh_client_ids:
  "priv_project_id (fresh_client usr pwd base_url) = None"
  "priv_suite_id (fresh_client usr pwd base_url) = None"
  by (simp_all add: fresh_client_def)

lemma set_project_failure_keeps_id:
  "fst (set_project srv project_name c) = Inl e \<Longrightarrow>
   priv_project_id (snd (set_project srv project_name c)) = priv_project_id c"
  by (auto simp: set_project_def Let_def get_project_by_name_def get_projects_def send_get_def
      send_request_def and_then_def returns_def split: option.splits sum.splits)

lemma set_project_absent_raises:
  assumes "get_projects_reply srv = Inr projects" and "\<forall>p \<in> set projects. ent_name p \<noteq> n"
  shows "fst (set_project srv (Some n) c) = Inl TypeError"
  using assms
  by (simp add: set_project_def Let_def get_projects_ok first_named_find find_absent)

end
